theory Spec2Isabelle
  imports Complex_Main "HOL-Library.Word"
begin

unbundle bit_operations_syntax

section \<open>Python values\<close>

text \<open>
  A Python \<open>str\<close> is a sequence of code points, and \<open>len\<close> counts code points, so a
  string is a list of code points (natural numbers). A Python \<open>float\<close> is modelled by the
  rational number it denotes: every finite float is a rational, and rounding of the
  arithmetic is not modelled. Python's \<open>int\<close> is \<open>int\<close>.
\<close>

type_synonym py_str = "nat list"

abbreviation py :: "string \<Rightarrow> py_str" where
  "py s \<equiv> map of_char s"

type_synonym py_float = rat

text \<open>The slice \<open>xs[i:j]\<close> for \<open>0 \<le> i \<le> j\<close>.\<close>

definition slice :: "nat \<Rightarrow> nat \<Rightarrow> 'a list \<Rightarrow> 'a list" where
  "slice i j xs = take (j - i) (drop i xs)"

text \<open>The slice \<open>xs[:end]\<close>, where a negative \<open>end\<close> counts from the end of the sequence.\<close>

definition slice_to :: "'a list \<Rightarrow> int \<Rightarrow> 'a list" where
  "slice_to xs e = (if e < 0 then take (nat (int (length xs) + e)) xs else take (nat e) xs)"

text \<open>\<open>int(x)\<close> of a float truncates towards zero.\<close>

definition py_int :: "py_float \<Rightarrow> int" where
  "py_int x = (if 0 \<le> x then \<lfloor>x\<rfloor> else \<lceil>x\<rceil>)"

text \<open>
  \<open>str.strip()\<close> without argument removes leading and trailing whitespace, that is the
  code points for which \<open>str.isspace\<close> holds.
\<close>

definition isspace :: "nat \<Rightarrow> bool" where
  "isspace c \<longleftrightarrow> c \<in> {9, 10, 11, 12, 13, 28, 29, 30, 31, 32, 133, 160, 5760,
     8192, 8193, 8194, 8195, 8196, 8197, 8198, 8199, 8200, 8201, 8202,
     8232, 8233, 8239, 8287, 12288}"

definition strip :: "py_str \<Rightarrow> py_str" where
  "strip s = rev (dropWhile isspace (rev (dropWhile isspace s)))"

text \<open>The test \<open>sub in s\<close> on strings.\<close>

fun contains :: "py_str \<Rightarrow> py_str \<Rightarrow> bool" where
  "contains [] sub = (sub = [])"
| "contains (c # s) sub = (take (length sub) (c # s) = sub \<or> contains s sub)"

subsection \<open>Hashing\<close>

text \<open>
  The dash pattern cache is keyed by \<open>hash((pattern, scale))\<close>, the hash of a tuple of a
  tuple of floats and a float. This is CPython's hash on a 64-bit build.

  A number \<open>m / n\<close> is hashed by reduction modulo the prime \<open>2^61 - 1\<close>, as the language
  reference gives it under "Hashing of numeric types": \<open>m\<close> times the inverse of \<open>n\<close>,
  negated for a negative number, and \<open>-2\<close> in place of \<open>-1\<close>.
\<close>

definition hash_modulus :: int where
  "hash_modulus = 2 ^ 61 - 1"

definition hash_inf :: int where
  "hash_inf = 314159"

function modpow :: "int \<Rightarrow> int \<Rightarrow> int \<Rightarrow> int" where
  "modpow b e m =
     (if e \<le> 0 then 1 mod m
      else let h = modpow (b * b mod m) (e div 2) m
           in if odd e then b * h mod m else h)"
  by pat_completeness auto
termination
  by (relation "measure (\<lambda>(b, e, m). nat e)") auto

declare modpow.simps [simp del]

definition hash_float :: "py_float \<Rightarrow> int" where
  "hash_float x =
     (let (m, n) = quotient_of x;
          hash_value = (if n mod hash_modulus = 0 then hash_inf
                        else (\<bar>m\<bar> mod hash_modulus)
                               * modpow n (hash_modulus - 2) hash_modulus mod hash_modulus);
          hash_value = (if m < 0 then - hash_value else hash_value)
      in if hash_value = -1 then -2 else hash_value)"

text \<open>
  A tuple is hashed from the hashes of its items (\<open>tuplehash\<close> of CPython 3.8 and
  later): the accumulator starts at a constant, takes each item's hash as a lane, which
  is multiplied, added, rotated left by 31 bits and multiplied again, all in unsigned
  64-bit arithmetic, and the length of the tuple is mixed in at the end. The result is
  read as a signed number, with 1546275796 in place of \<open>-1\<close>. (The hash of an item is
  never \<open>-1\<close>, which is how a failed hash is told.)
\<close>

definition XXPRIME_1 :: "64 word" where
  "XXPRIME_1 = 11400714785074694791"

definition XXPRIME_2 :: "64 word" where
  "XXPRIME_2 = 14029467366897019727"

definition XXPRIME_5 :: "64 word" where
  "XXPRIME_5 = 2870177450012600261"

definition XXROTATE :: "64 word \<Rightarrow> 64 word" where
  "XXROTATE x = push_bit 31 x OR drop_bit 33 x"

fun tuplehash_lanes :: "64 word \<Rightarrow> int list \<Rightarrow> 64 word" where
  "tuplehash_lanes acc [] = acc"
| "tuplehash_lanes acc (lane # lanes) =
     tuplehash_lanes (XXROTATE (acc + word_of_int lane * XXPRIME_2) * XXPRIME_1) lanes"

definition tuplehash :: "int list \<Rightarrow> int" where
  "tuplehash lanes =
     (let acc = tuplehash_lanes XXPRIME_5 lanes;
          acc = acc + (word_of_nat (length lanes) XOR (XXPRIME_5 XOR 3527539))
      in if acc = - 1 then 1546275796 else sint acc)"

text \<open>\<open>hash((pattern, scale))\<close>.\<close>

definition hash_pattern_scale :: "py_float list \<Rightarrow> py_float \<Rightarrow> int" where
  "hash_pattern_scale pattern scale =
     tuplehash [tuplehash (map hash_float pattern), hash_float scale]"

section \<open>Data model\<close>

text \<open>
  Modelled from the spec: the value types the backend consumes and other modules of the
  repository define, namely the kinds of path commands (\<open>ezdxf.render.Command\<close>),
  vectors, paths, font descriptors, property sets and entities. Only the attributes this
  module reads are kept. A command kind other than line and curve is \<open>OTHER_COMMAND\<close>
  with its number.
\<close>

datatype Command = LINE_TO | CURVE_TO | OTHER_COMMAND int

datatype error =
    TypeError py_str
  | ValueError Command
  | AttributeError
  | ZeroDivisionError

datatype Vector = Vector (vec_x: py_float) (vec_y: py_float) (vec_z: py_float)

text \<open>
  A path command carries its kind (\<open>cmd.type\<close>) and the vertices of that kind; a path
  is its start point and its commands.
\<close>

datatype PathCommand =
    LineTo (cmd_end: Vector)
  | CurveTo (cmd_end: Vector) (cmd_ctrl1: Vector) (cmd_ctrl2: Vector)
  | OtherCommand int

fun cmd_type :: "PathCommand \<Rightarrow> Command" where
  "cmd_type (LineTo e) = LINE_TO"
| "cmd_type (CurveTo e c1 c2) = CURVE_TO"
| "cmd_type (OtherCommand k) = OTHER_COMMAND k"

record Path =
  path_start :: Vector
  path_commands :: "PathCommand list"

datatype font_weight = WeightName py_str | WeightValue int

record Font =
  family :: py_str
  style :: py_str
  stretch :: py_str
  weight :: font_weight

record Properties =
  color :: py_str
  lineweight :: py_float
  linetype_pattern :: "py_float list"
  linetype_scale :: py_float
  filling :: bool
  units :: int
  font :: "Font option"

record Entity =
  handle :: nat
  dxftype :: py_str

subsection \<open>Renderer resources\<close>

text \<open>
  A \<open>QColor\<close> object is the name it was constructed from, together with the identity of
  the object: every construction allocates a new object.
\<close>

datatype QColor = QColor (color_id: nat) (color_name: py_str)

datatype PenJoinStyle = MiterJoin | BevelJoin | RoundJoin

datatype QPen =
    NoPen
  | Pen (pen_color: QColor) (pen_width: py_float) (pen_cosmetic: bool)
        (pen_join: PenJoinStyle) (pen_dashes: "py_float list option")

datatype QBrush = NoBrush | SolidPattern QColor

datatype QFont = QFont_default | QFont py_str int bool

datatype PathElement =
    MoveToElement py_float py_float
  | LineToElement py_float py_float
  | CubicToElement py_float py_float py_float py_float py_float py_float

type_synonym QPainterPath = "PathElement list"

record QRectF =
  rect_left :: py_float
  rect_top :: py_float
  rect_right :: py_float
  rect_bottom :: py_float

record FontMeasurements =
  baseline :: py_float
  cap_height :: py_float
  x_height :: py_float
  descender_height :: py_float

datatype Shape =
    PointShape py_float py_float py_float
  | LineShape py_float py_float py_float py_float
  | PathShape QPainterPath
  | PolygonShape "(py_float \<times> py_float) list"

text \<open>
  A graphics item with the two data slots \<open>CorrespondingDXFEntity\<close> and
  \<open>CorrespondingDXFParentStack\<close>; the slots are empty until \<open>setData\<close> fills them.
\<close>

record QGraphicsItem =
  item_shape :: Shape
  item_pen :: QPen
  item_brush :: QBrush
  item_entity :: "Entity option option"
  item_parent_stack :: "Entity list option"

record QGraphicsScene =
  scene_items :: "QGraphicsItem list"
  backgroundBrush :: QBrush

subsection \<open>Collaborators\<close>

text \<open>
  What the backend uses and this module does not define: the set of imperial unit codes,
  the lookup of named font weights, the preparation of a string for rendering, the
  winding of a path, \<open>str.lower\<close>, and of the renderer the hash of a font, the shaping of
  a text into an outline at the origin and the bounding rectangle of an outline. They
  are parameters of the model.
\<close>

record Collaborators =
  IMPERIAL_UNITS :: "int set"
  weight_name_to_value :: "py_str \<Rightarrow> int"
  prepare_string_for_rendering :: "py_str \<Rightarrow> py_str \<Rightarrow> py_str"
  counter_clockwise :: "Path \<Rightarrow> Path"
  clockwise :: "Path \<Rightarrow> Path"
  lower :: "py_str \<Rightarrow> py_str"
  qfont_hash :: "QFont option \<Rightarrow> int"
  addText :: "QFont \<Rightarrow> py_str \<Rightarrow> QPainterPath"
  boundingRect :: "QPainterPath \<Rightarrow> QRectF"

subsection \<open>The backend\<close>

text \<open>
  \<open>shaping_calls\<close> is instrumentation: it counts the calls of \<open>addText\<close>, which leave no
  other trace when the text cache is off.
\<close>

record TextRenderer =
  default_font :: QFont
  use_cache :: bool
  text_path_cache :: "int \<rightharpoonup> (py_str \<rightharpoonup> QPainterPath)"
  font_measurement_cache :: "int \<rightharpoonup> FontMeasurements"
  shaping_calls :: nat

text \<open>
  Modelled from the spec: the attributes of the base class \<open>Backend\<close>, which is not in
  this module, namely the configuration (\<open>point_size\<close> to \<open>show_hatch\<close>), the current
  entity and the stack of entities. The other attributes are the ones the constructor of
  this module sets; \<open>allocated\<close> counts the \<open>QColor\<close> objects constructed so far and
  gives the next one its identity.
\<close>

record PyQtBackend =
  point_size :: py_float
  lineweight_scaling :: py_float
  linetype_scaling :: py_float
  min_dash_length :: py_float
  show_hatch :: int
  current_entity :: "Entity option"
  entity_stack :: "(Entity \<times> Properties) list"
  scene :: "QGraphicsScene option"
  color_cache :: "py_str \<rightharpoonup> QColor"
  text_renderer :: TextRenderer
  debug_draw_rect :: bool
  dash_pattern_cache :: "int \<rightharpoonup> py_float list"
  allocated :: nat

text \<open>
  An operation returns its value or the error it raised, and the backend as it is then:
  an exception does not undo what the operation did before.
\<close>

type_synonym 'a result = "(error + 'a) \<times> PyQtBackend"

definition no_line :: QPen where
  "no_line = NoPen"

definition no_fill :: QBrush where
  "no_fill = NoBrush"

text \<open>The options of the constructor's \<open>params\<close>.\<close>

record BackendParams =
  param_point_size :: "py_float option"
  param_lineweight_scaling :: "py_float option"
  param_linetype_scaling :: py_float
  param_min_dash_length :: py_float
  param_show_hatch :: int

definition TextRenderer_init :: "QFont \<Rightarrow> bool \<Rightarrow> TextRenderer" where
  "TextRenderer_init fnt use =
     \<lparr>default_font = fnt, use_cache = use, text_path_cache = Map.empty,
      font_measurement_cache = Map.empty, shaping_calls = 0\<rparr>"

text \<open>
  The constructor: \<open>PYQT_DEFAULT_PARAMS\<close> gives \<open>point_size\<close> 1.0 and
  \<open>lineweight_scaling\<close> 2.0 where \<open>params\<close> does not, and a \<open>point_radius\<close> overrides
  the point size. Modelled from the spec: the constructor of the base class, which keeps
  the options as attributes and starts with no entity; the options without a default in
  this module come as they are.
\<close>

definition PyQtBackend_init ::
  "QGraphicsScene option \<Rightarrow> py_float option \<Rightarrow> bool \<Rightarrow> bool \<Rightarrow> BackendParams \<Rightarrow> PyQtBackend" where
  "PyQtBackend_init scn point_radius use_text_cache debug params =
     \<lparr>point_size =
        (case point_radius of
           Some r \<Rightarrow> r * 2
         | None \<Rightarrow> (case param_point_size params of Some v \<Rightarrow> v | None \<Rightarrow> 1)),
      lineweight_scaling =
        (case param_lineweight_scaling params of Some v \<Rightarrow> v | None \<Rightarrow> 2),
      linetype_scaling = param_linetype_scaling params,
      min_dash_length = param_min_dash_length params,
      show_hatch = param_show_hatch params,
      current_entity = None,
      entity_stack = [],
      scene = scn,
      color_cache = Map.empty,
      text_renderer = TextRenderer_init QFont_default use_text_cache,
      debug_draw_rect = debug,
      dash_pattern_cache = Map.empty,
      allocated = 0\<rparr>"

section \<open>Styles\<close>

subsection \<open>Colours\<close>

definition get_color :: "PyQtBackend \<Rightarrow> py_str \<Rightarrow> QColor result" where
  "get_color self c =
     (case color_cache self c of
        Some qt_color \<Rightarrow> (Inr qt_color, self)
      | None \<Rightarrow>
          (case (if length c = 7 then Inr c
                 else if length c = 9 then
                   (let rgb = slice 1 7 c; alpha = slice 7 9 c
                    in Inr (py ''#'' @ alpha @ rgb))
                 else Inl (TypeError c)) of
             Inl e \<Rightarrow> (Inl e, self)
           | Inr name \<Rightarrow>
               (let qt_color = QColor (allocated self) name
                in (Inr qt_color,
                    self\<lparr>allocated := Suc (allocated self),
                         color_cache := (color_cache self)(c \<mapsto> qt_color)\<rparr>))))"

subsection \<open>Dash patterns\<close>

definition get_line_pattern_factor :: "Collaborators \<Rightarrow> PyQtBackend \<Rightarrow> int \<Rightarrow> py_float" where
  "get_line_pattern_factor E self u =
     (let scale = (if linetype_scaling self \<noteq> 0 then linetype_scaling self else 1)
      in (if u \<in> IMPERIAL_UNITS E then 750 else 30) * scale)"

definition get_dash_pattern ::
  "PyQtBackend \<Rightarrow> py_float list \<Rightarrow> py_float \<Rightarrow> py_float list \<times> PyQtBackend" where
  "get_dash_pattern self pattern scale =
     (let hash_key = hash_pattern_scale pattern scale
      in case dash_pattern_cache self hash_key of
           Some dashes \<Rightarrow> (dashes, self)
         | None \<Rightarrow>
             (let end = int (length pattern);
                  end = (if end mod 2 \<noteq> 0 then -1 else end);
                  min_length = min_dash_length self;
                  dashes = map (\<lambda>dash. max (dash * scale) min_length) (slice_to pattern end)
              in (dashes,
                  self\<lparr>dash_pattern_cache := (dash_pattern_cache self)(hash_key \<mapsto> dashes)\<rparr>)))"

subsection \<open>Pens and brushes\<close>

definition get_pen :: "Collaborators \<Rightarrow> PyQtBackend \<Rightarrow> Properties \<Rightarrow> QPen result" where
  "get_pen E self properties =
     (let px = lineweight properties / (3527 / 10000) * lineweight_scaling self
      in case get_color self (color properties) of
           (Inl e, s) \<Rightarrow> (Inl e, s)
         | (Inr qt_color, s) \<Rightarrow>
             if length (linetype_pattern properties) > 1 \<and> linetype_scaling s \<noteq> 0 then
               (let pattern_factor = get_line_pattern_factor E s (units properties);
                    (dashes, s') = get_dash_pattern s (linetype_pattern properties)
                                     (linetype_scale properties * pattern_factor)
                in (Inr (Pen qt_color px True RoundJoin (Some dashes)), s'))
             else (Inr (Pen qt_color px True RoundJoin None), s))"

definition get_brush :: "PyQtBackend \<Rightarrow> Properties \<Rightarrow> QBrush result" where
  "get_brush self properties =
     (if filling properties then
        (case get_color self (color properties) of
           (Inl e, s) \<Rightarrow> (Inl e, s)
         | (Inr qt_color, s) \<Rightarrow> (Inr (SolidPattern qt_color), s))
      else (Inr no_fill, self))"

subsection \<open>Font weights\<close>

definition map_weight :: "Collaborators \<Rightarrow> font_weight \<Rightarrow> int" where
  "map_weight E w =
     (let w = (case w of WeightName name \<Rightarrow> weight_name_to_value E name | WeightValue v \<Rightarrow> v);
          v = py_int ((of_int w / 10) + 10)
      in min (max 0 v) 99)"

section \<open>Geometry\<close>

subsection \<open>Paths\<close>

text \<open>
  \<open>_extend_qt_path\<close> appends to the path it is given and stops at the first command that
  is neither a line nor a curve: the result is the error raised, if any, and the path as
  far as it was extended.
\<close>

fun extend_commands :: "QPainterPath \<Rightarrow> PathCommand list \<Rightarrow> error option \<times> QPainterPath" where
  "extend_commands qt_path [] = (None, qt_path)"
| "extend_commands qt_path (LineTo e # cmds) =
     extend_commands (qt_path @ [LineToElement (vec_x e) (vec_y e)]) cmds"
| "extend_commands qt_path (CurveTo e ctrl1 ctrl2 # cmds) =
     extend_commands
       (qt_path @ [CubicToElement (vec_x ctrl1) (vec_y ctrl1) (vec_x ctrl2) (vec_y ctrl2)
                     (vec_x e) (vec_y e)]) cmds"
| "extend_commands qt_path (OtherCommand k # cmds) =
     (Some (ValueError (cmd_type (OtherCommand k))), qt_path)"

definition extend_qt_path :: "QPainterPath \<Rightarrow> Path \<Rightarrow> error option \<times> QPainterPath" where
  "extend_qt_path qt_path path =
     (let start = path_start path
      in extend_commands (qt_path @ [MoveToElement (vec_x start) (vec_y start)])
           (path_commands path))"

text \<open>The loops of \<open>draw_filled_paths\<close>: each path is wound by \<open>wind\<close> and appended.\<close>

fun extend_all :: "(Path \<Rightarrow> Path) \<Rightarrow> QPainterPath \<Rightarrow> Path list \<Rightarrow> error option \<times> QPainterPath" where
  "extend_all wind qt_path [] = (None, qt_path)"
| "extend_all wind qt_path (path # paths) =
     (case extend_qt_path qt_path (wind path) of
        (Some e, qt_path') \<Rightarrow> (Some e, qt_path')
      | (None, qt_path') \<Rightarrow> extend_all wind qt_path' paths)"

subsection \<open>Transformations\<close>

text \<open>
  Modelled from the spec: \<open>Matrix44\<close> of \<open>ezdxf.math\<close>, the 4x4 transformation the backend
  takes as a value type, reducible to a 2D affine map (the 2x2 linear part and the
  translation). As the comment of \<open>_matrix_to_qtransform\<close> says, it acts on row vectors
  and has the translation in the bottom row, so the product \<open>a @ b\<close> applies \<open>a\<close> first. A
  matrix is the function from row and column (0 to 3) to the entry.
\<close>

type_synonym Matrix44 = "nat \<Rightarrow> nat \<Rightarrow> py_float"

definition Matrix44_scale :: "py_float \<Rightarrow> py_float \<Rightarrow> py_float \<Rightarrow> Matrix44" where
  "Matrix44_scale sx sy sz =
     (\<lambda>i j. if i \<noteq> j then 0
            else if i = 0 then sx else if i = 1 then sy else if i = 2 then sz
            else if i = 3 then 1 else 0)"

definition matmul :: "Matrix44 \<Rightarrow> Matrix44 \<Rightarrow> Matrix44" where
  "matmul a b = (\<lambda>i j. a i 0 * b 0 j + a i 1 * b 1 j + a i 2 * b 2 j + a i 3 * b 3 j)"

definition get_2d_transformation :: "Matrix44 \<Rightarrow> py_float list" where
  "get_2d_transformation m = [m 0 0, m 0 1, 0, m 1 0, m 1 1, 0, m 3 0, m 3 1, 1]"

text \<open>
  \<open>QTransform\<close> of the renderer: the 3x3 matrix \<open>m11 \<dots> m33\<close>, which maps a point by
  \<open>x' = m11 x + m21 y + m31\<close>, \<open>y' = m12 x + m22 y + m32\<close>, divided by
  \<open>w' = m13 x + m23 y + m33\<close> when the matrix is not affine, and a path point by point.
\<close>

record QTransform =
  m11 :: py_float
  m12 :: py_float
  m13 :: py_float
  m21 :: py_float
  m22 :: py_float
  m23 :: py_float
  m31 :: py_float
  m32 :: py_float
  m33 :: py_float

definition isAffine :: "QTransform \<Rightarrow> bool" where
  "isAffine t \<longleftrightarrow> m13 t = 0 \<and> m23 t = 0 \<and> m33 t = 1"

definition map_point :: "QTransform \<Rightarrow> py_float \<times> py_float \<Rightarrow> py_float \<times> py_float" where
  "map_point t p =
     (let x = fst p; y = snd p;
          x' = m11 t * x + m21 t * y + m31 t;
          y' = m12 t * x + m22 t * y + m32 t
      in if isAffine t then (x', y')
         else (let w' = m13 t * x + m23 t * y + m33 t in (x' / w', y' / w')))"

fun map_element :: "(py_float \<times> py_float \<Rightarrow> py_float \<times> py_float) \<Rightarrow> PathElement \<Rightarrow> PathElement" where
  "map_element f (MoveToElement x y) =
     (let p = f (x, y) in MoveToElement (fst p) (snd p))"
| "map_element f (LineToElement x y) =
     (let p = f (x, y) in LineToElement (fst p) (snd p))"
| "map_element f (CubicToElement x1 y1 x2 y2 x y) =
     (let c1 = f (x1, y1); c2 = f (x2, y2); p = f (x, y)
      in CubicToElement (fst c1) (snd c1) (fst c2) (snd c2) (fst p) (snd p))"

definition map_path :: "QTransform \<Rightarrow> QPainterPath \<Rightarrow> QPainterPath" where
  "map_path t path = map (map_element (map_point t)) path"

definition matrix_to_qtransform :: "Matrix44 \<Rightarrow> QTransform" where
  "matrix_to_qtransform matrix =
     (let v = get_2d_transformation matrix
      in \<lparr>m11 = v ! 0, m12 = v ! 1, m13 = v ! 2, m21 = v ! 3, m22 = v ! 4, m23 = v ! 5,
          m31 = v ! 6, m32 = v ! 7, m33 = v ! 8\<rparr>)"

section \<open>Text\<close>

definition get_text_path ::
  "Collaborators \<Rightarrow> TextRenderer \<Rightarrow> py_str \<Rightarrow> QFont option \<Rightarrow> QPainterPath \<times> TextRenderer" where
  "get_text_path E tr text fnt =
     (let key = qfont_hash E fnt;
          cache = (case text_path_cache tr key of Some c \<Rightarrow> c | None \<Rightarrow> Map.empty);
          tr = tr\<lparr>text_path_cache := (text_path_cache tr)(key \<mapsto> cache)\<rparr>
      in case cache text of
           Some path \<Rightarrow> (path, tr)
         | None \<Rightarrow>
             (let fnt = (case fnt of None \<Rightarrow> default_font tr | Some f \<Rightarrow> f);
                  path = addText E fnt text;
                  tr = tr\<lparr>shaping_calls := Suc (shaping_calls tr)\<rparr>
              in if use_cache tr
                 then (path, tr\<lparr>text_path_cache := (text_path_cache tr)(key \<mapsto> cache(text \<mapsto> path))\<rparr>)
                 else (path, tr)))"

definition get_text_rect ::
  "Collaborators \<Rightarrow> TextRenderer \<Rightarrow> py_str \<Rightarrow> QFont option \<Rightarrow> QRectF \<times> TextRenderer" where
  "get_text_rect E tr text fnt =
     (let (path, tr) = get_text_path E tr text fnt in (boundingRect E path, tr))"

definition TextRenderer_get_font_measurements ::
  "Collaborators \<Rightarrow> TextRenderer \<Rightarrow> QFont option \<Rightarrow> FontMeasurements \<times> TextRenderer" where
  "TextRenderer_get_font_measurements E tr fnt =
     (let key = qfont_hash E fnt
      in case font_measurement_cache tr key of
           Some measurements \<Rightarrow> (measurements, tr)
         | None \<Rightarrow>
             (let (upper_x, tr) = get_text_rect E tr (py ''X'') fnt;
                  (lower_x, tr) = get_text_rect E tr (py ''x'') fnt;
                  (lower_p, tr) = get_text_rect E tr (py ''p'') fnt;
                  bl = rect_bottom lower_x;
                  measurements =
                    \<lparr>baseline = bl,
                     cap_height = bl - rect_top upper_x,
                     x_height = bl - rect_top lower_x,
                     descender_height = rect_bottom lower_p - bl\<rparr>
              in (measurements,
                  tr\<lparr>font_measurement_cache := (font_measurement_cache tr)(key \<mapsto> measurements)\<rparr>)))"

text \<open>The division raises when the measured cap height is zero.\<close>

definition get_scale ::
  "Collaborators \<Rightarrow> TextRenderer \<Rightarrow> py_float \<Rightarrow> QFont option \<Rightarrow> (error + py_float) \<times> TextRenderer" where
  "get_scale E tr desired_cap_height fnt =
     (let (measurements, tr) = TextRenderer_get_font_measurements E tr fnt
      in if cap_height measurements = 0 then (Inl ZeroDivisionError, tr)
         else (Inr (desired_cap_height / cap_height measurements), tr))"

definition clear_cache :: "TextRenderer \<Rightarrow> TextRenderer" where
  "clear_cache tr = tr\<lparr>text_path_cache := Map.empty\<rparr>"

text \<open>
  \<open>get_qfont\<close> is memoized by \<open>lru_cache\<close>; its value depends on the font descriptor and
  the default font only, which never changes, so the memo does not show in the value.
\<close>

definition get_qfont :: "Collaborators \<Rightarrow> PyQtBackend \<Rightarrow> Font option \<Rightarrow> QFont" where
  "get_qfont E self fnt =
     (case fnt of
        None \<Rightarrow> default_font (text_renderer self)
      | Some f \<Rightarrow>
          (let italic = contains (lower E (style f)) (py ''italic'');
               w = map_weight E (weight f)
           in QFont (family f) w italic))"

section \<open>Drawing\<close>

definition Point_init :: "py_float \<Rightarrow> py_float \<Rightarrow> py_float \<Rightarrow> QBrush \<Rightarrow> QGraphicsItem" where
  "Point_init x y radius brush =
     \<lparr>item_shape = PointShape x y radius, item_pen = NoPen, item_brush = brush,
      item_entity = None, item_parent_stack = None\<rparr>"

definition new_item :: "Shape \<Rightarrow> QPen \<Rightarrow> QBrush \<Rightarrow> QGraphicsItem" where
  "new_item sh pen brush =
     \<lparr>item_shape = sh, item_pen = pen, item_brush = brush,
      item_entity = None, item_parent_stack = None\<rparr>"

definition set_item_data :: "PyQtBackend \<Rightarrow> QGraphicsItem \<Rightarrow> QGraphicsItem" where
  "set_item_data self item =
     (let parent_stack = map fst (butlast (entity_stack self))
      in item\<lparr>item_entity := Some (current_entity self),
              item_parent_stack := Some parent_stack\<rparr>)"

text \<open>
  Adding an item to the scene and tagging it. Where the scene is \<open>None\<close> the attribute
  access on it raises. (The scene's own \<open>addLine\<close>, \<open>addPath\<close> and \<open>addPolygon\<close> create
  the item first and the backend tags it afterwards; \<open>draw_point\<close> tags its item and
  adds it then. The scene holds the same tagged item either way.)
\<close>

definition add_item :: "PyQtBackend \<Rightarrow> QGraphicsItem \<Rightarrow> unit result" where
  "add_item self item =
     (case scene self of
        None \<Rightarrow> (Inl AttributeError, self)
      | Some sc \<Rightarrow>
          (Inr (),
           self\<lparr>scene := Some (sc\<lparr>scene_items := scene_items sc @ [set_item_data self item]\<rparr>)\<rparr>))"

definition set_scene :: "PyQtBackend \<Rightarrow> QGraphicsScene option \<Rightarrow> PyQtBackend" where
  "set_scene self sc = self\<lparr>scene := sc\<rparr>"

definition clear :: "PyQtBackend \<Rightarrow> unit result" where
  "clear self =
     (case scene self of
        None \<Rightarrow> (Inl AttributeError, self)
      | Some sc \<Rightarrow> (Inr (), self\<lparr>scene := Some (sc\<lparr>scene_items := []\<rparr>)\<rparr>))"

definition clear_text_cache :: "PyQtBackend \<Rightarrow> PyQtBackend" where
  "clear_text_cache self = self\<lparr>text_renderer := clear_cache (text_renderer self)\<rparr>"

definition set_background :: "PyQtBackend \<Rightarrow> py_str \<Rightarrow> unit result" where
  "set_background self c =
     (case scene self of
        None \<Rightarrow> (Inl AttributeError, self)
      | Some _ \<Rightarrow>
          (case get_color self c of
             (Inl e, s) \<Rightarrow> (Inl e, s)
           | (Inr qt_color, s) \<Rightarrow>
               (case scene s of
                  None \<Rightarrow> (Inl AttributeError, s)
                | Some sc \<Rightarrow>
                    (Inr (), s\<lparr>scene := Some (sc\<lparr>backgroundBrush := SolidPattern qt_color\<rparr>)\<rparr>))))"

definition draw_point :: "PyQtBackend \<Rightarrow> Vector \<Rightarrow> Properties \<Rightarrow> unit result" where
  "draw_point self pos properties =
     (case get_color self (color properties) of
        (Inl e, s) \<Rightarrow> (Inl e, s)
      | (Inr qt_color, s) \<Rightarrow>
          (let brush = SolidPattern qt_color;
               item = Point_init (vec_x pos) (vec_y pos) (point_size s * (1 / 2)) brush
           in add_item s item))"

definition draw_line ::
  "Collaborators \<Rightarrow> PyQtBackend \<Rightarrow> Vector \<Rightarrow> Vector \<Rightarrow> Properties \<Rightarrow> unit result" where
  "draw_line E self start end properties =
     (case scene self of
        None \<Rightarrow> (Inl AttributeError, self)
      | Some _ \<Rightarrow>
          (case get_pen E self properties of
             (Inl e, s) \<Rightarrow> (Inl e, s)
           | (Inr pen, s) \<Rightarrow>
               add_item s
                 (new_item (LineShape (vec_x start) (vec_y start) (vec_x end) (vec_y end))
                    pen NoBrush)))"

definition draw_path :: "Collaborators \<Rightarrow> PyQtBackend \<Rightarrow> Path \<Rightarrow> Properties \<Rightarrow> unit result" where
  "draw_path E self path properties =
     (case extend_qt_path [] path of
        (Some e, _) \<Rightarrow> (Inl e, self)
      | (None, qt_path) \<Rightarrow>
          (case scene self of
             None \<Rightarrow> (Inl AttributeError, self)
           | Some _ \<Rightarrow>
               (case get_pen E self properties of
                  (Inl e, s) \<Rightarrow> (Inl e, s)
                | (Inr pen, s) \<Rightarrow> add_item s (new_item (PathShape qt_path) pen no_fill))))"

definition draw_filled_paths ::
  "Collaborators \<Rightarrow> PyQtBackend \<Rightarrow> Path list \<Rightarrow> Path list \<Rightarrow> Properties \<Rightarrow> unit result" where
  "draw_filled_paths E self paths holes properties =
     (if show_hatch self = 0 then (Inr (), self)
      else
        (case extend_all (counter_clockwise E) [] paths of
           (Some e, _) \<Rightarrow> (Inl e, self)
         | (None, qt_path) \<Rightarrow>
             (case extend_all (clockwise E) qt_path holes of
                (Some e, _) \<Rightarrow> (Inl e, self)
              | (None, qt_path) \<Rightarrow>
                  (case scene self of
                     None \<Rightarrow> (Inl AttributeError, self)
                   | Some _ \<Rightarrow>
                       (case get_pen E self properties of
                          (Inl e, s) \<Rightarrow> (Inl e, s)
                        | (Inr pen, s) \<Rightarrow>
                            (case get_brush s properties of
                               (Inl e, s') \<Rightarrow> (Inl e, s')
                             | (Inr brush, s') \<Rightarrow>
                                 add_item s' (new_item (PathShape qt_path) pen brush)))))))"

definition draw_filled_polygon :: "PyQtBackend \<Rightarrow> Vector list \<Rightarrow> Properties \<Rightarrow> unit result" where
  "draw_filled_polygon self points properties =
     (case get_brush self properties of
        (Inl e, s) \<Rightarrow> (Inl e, s)
      | (Inr brush, s) \<Rightarrow>
          (let polygon = map (\<lambda>p. (vec_x p, vec_y p)) points
           in add_item s (new_item (PolygonShape polygon) no_line brush)))"

definition draw_text ::
  "Collaborators \<Rightarrow> PyQtBackend \<Rightarrow> py_str \<Rightarrow> Matrix44 \<Rightarrow> Properties \<Rightarrow> py_float \<Rightarrow> unit result" where
  "draw_text E self text transform properties cap_h =
     (if strip text = [] then (Inr (), self)
      else
        (case current_entity self of
           None \<Rightarrow> (Inl AttributeError, self)
         | Some entity \<Rightarrow>
             (let text = prepare_string_for_rendering E text (dxftype entity);
                  qfont = get_qfont E self (font properties);
                  (r, tr) = get_scale E (text_renderer self) cap_h (Some qfont);
                  s = self\<lparr>text_renderer := tr\<rparr>
              in case r of
                   Inl e \<Rightarrow> (Inl e, s)
                 | Inr scale \<Rightarrow>
                     (let transform = matmul (Matrix44_scale scale (- scale) 0) transform;
                          (path, tr) = get_text_path E (text_renderer s) text (Some qfont);
                          s = s\<lparr>text_renderer := tr\<rparr>;
                          path = map_path (matrix_to_qtransform transform) path
                      in case scene s of
                           None \<Rightarrow> (Inl AttributeError, s)
                         | Some _ \<Rightarrow>
                             (case get_color s (color properties) of
                                (Inl e, s') \<Rightarrow> (Inl e, s')
                              | (Inr qt_color, s') \<Rightarrow>
                                  add_item s'
                                    (new_item (PathShape path) no_line (SolidPattern qt_color)))))))"

definition get_text_line_width ::
  "Collaborators \<Rightarrow> PyQtBackend \<Rightarrow> py_str \<Rightarrow> py_float \<Rightarrow> Font option \<Rightarrow> py_float result" where
  "get_text_line_width E self text cap_h fnt =
     (if strip text = [] then (Inr 0, self)
      else
        (let dxft = (case current_entity self of
                       Some entity \<Rightarrow> dxftype entity
                     | None \<Rightarrow> py ''TEXT'');
             text = prepare_string_for_rendering E text dxft;
             qfont = get_qfont E self fnt;
             (r, tr) = get_scale E (text_renderer self) cap_h (Some qfont);
             s = self\<lparr>text_renderer := tr\<rparr>
         in case r of
              Inl e \<Rightarrow> (Inl e, s)
            | Inr scale \<Rightarrow>
                (let (rect, tr) = get_text_rect E (text_renderer s) text (Some qfont)
                 in (Inr (rect_right rect * scale), s\<lparr>text_renderer := tr\<rparr>))))"

section \<open>What the specification says\<close>

text \<open>
  The definitions of this section are not taken from the code: they write down the
  specification's own words, or a property of the backend's state, to be compared with
  the code.
\<close>

subsection \<open>Dash scale\<close>

text \<open>
  The specification's scale for the dash pattern: the linetype scale times the constant
  of the unit system (750 and 30 are the code's constants) divided by the linetype
  scaling, which counts as 1 when it is zero; and the pen that results when this scale
  is passed to the resolution of the dash pattern.
\<close>

definition spec_dash_scale :: "Collaborators \<Rightarrow> PyQtBackend \<Rightarrow> Properties \<Rightarrow> py_float" where
  "spec_dash_scale E self properties =
     linetype_scale properties *
       ((if units properties \<in> IMPERIAL_UNITS E then 750 else 30)
          / (if linetype_scaling self = 0 then 1 else linetype_scaling self))"

definition spec_get_pen :: "Collaborators \<Rightarrow> PyQtBackend \<Rightarrow> Properties \<Rightarrow> QPen result" where
  "spec_get_pen E self properties =
     (case get_color self (color properties) of
        (Inl e, s) \<Rightarrow> (Inl e, s)
      | (Inr qt_color, s) \<Rightarrow>
          (let (dashes, s') =
                 get_dash_pattern s (linetype_pattern properties)
                   (spec_dash_scale E self properties)
           in (Inr (Pen qt_color
                      (lineweight properties / (3527 / 10000) * lineweight_scaling self)
                      True RoundJoin (Some dashes)), s')))"

subsection \<open>Font weight\<close>

text \<open>
  The specification's weight mapping, \<open>clamp(round(weight/10) + 10, 0, 99)\<close>, and the
  numeric value of a weight after the lookup of a named level.
\<close>

definition spec_weight_mapping :: "int \<Rightarrow> int" where
  "spec_weight_mapping w = min (max 0 (round (of_int w / 10 :: rat) + 10)) 99"

definition weight_value :: "Collaborators \<Rightarrow> font_weight \<Rightarrow> int" where
  "weight_value E w =
     (case w of WeightName name \<Rightarrow> weight_name_to_value E name | WeightValue v \<Rightarrow> v)"

subsection \<open>Colour cache\<close>

text \<open>
  The state of the colour cache that \<open>get_color\<close> keeps: every entry is stored under a
  string of 7 or 9 characters and holds the colour constructed from that string, with the
  alpha field moved to the front for 9 characters.
\<close>

definition color_cache_ok :: "PyQtBackend \<Rightarrow> bool" where
  "color_cache_ok self \<longleftrightarrow>
     (\<forall>c q. color_cache self c = Some q \<longrightarrow>
        (length c = 7 \<and> color_name q = c) \<or>
        (length c = 9 \<and> color_name q = py ''#'' @ slice 7 9 c @ slice 1 7 c))"

text \<open>
  The backends that can be reached: the constructor makes one, the frontend sets the
  current entity and the stack of entities, and every operation leads from one to the
  next, whether it returns or raises.
\<close>

inductive reachable :: "Collaborators \<Rightarrow> PyQtBackend \<Rightarrow> bool" for E :: Collaborators where
  init: "reachable E (PyQtBackend_init scn point_radius use dbg params)"
| entity: "reachable E self \<Longrightarrow> reachable E (self\<lparr>current_entity := e, entity_stack := st\<rparr>)"
| set_scene: "reachable E self \<Longrightarrow> reachable E (set_scene self scn)"
| clear_text_cache: "reachable E self \<Longrightarrow> reachable E (clear_text_cache self)"
| clear: "reachable E self \<Longrightarrow> reachable E (snd (clear self))"
| set_background: "reachable E self \<Longrightarrow> reachable E (snd (set_background self c))"
| draw_point: "reachable E self \<Longrightarrow> reachable E (snd (draw_point self pos properties))"
| draw_line: "reachable E self \<Longrightarrow> reachable E (snd (draw_line E self start finish properties))"
| draw_path: "reachable E self \<Longrightarrow> reachable E (snd (draw_path E self path properties))"
| draw_filled_paths:
    "reachable E self \<Longrightarrow> reachable E (snd (draw_filled_paths E self paths holes properties))"
| draw_filled_polygon:
    "reachable E self \<Longrightarrow> reachable E (snd (draw_filled_polygon self points properties))"
| draw_text:
    "reachable E self \<Longrightarrow> reachable E (snd (draw_text E self text transform properties cap_h))"
| get_text_line_width:
    "reachable E self \<Longrightarrow> reachable E (snd (get_text_line_width E self text cap_h fnt))"

subsection \<open>Dash patterns\<close>

text \<open>
  The specification's resolution of a dash pattern: the last length is dropped when
  their number is odd, and each remaining length is multiplied by the scale and raised to
  the minimum dash length.
\<close>

definition spec_resolve :: "py_float \<Rightarrow> py_float list \<Rightarrow> py_float \<Rightarrow> py_float list" where
  "spec_resolve min_length pattern scale =
     map (\<lambda>dash. max (dash * scale) min_length)
       (if odd (length pattern) then butlast pattern else pattern)"

text \<open>The backend after a sequence of resolutions, each of a pattern and a scale.\<close>

fun resolve_all :: "PyQtBackend \<Rightarrow> (py_float list \<times> py_float) list \<Rightarrow> PyQtBackend" where
  "resolve_all self [] = self"
| "resolve_all self (call # calls) =
     resolve_all (snd (get_dash_pattern self (fst call) (snd call))) calls"

text \<open>Every entry of the dash pattern cache was resolved for a pattern and a scale of \<open>S\<close>.\<close>

definition dash_entries_from :: "PyQtBackend \<Rightarrow> (py_float list \<times> py_float) set \<Rightarrow> bool" where
  "dash_entries_from self S \<longleftrightarrow>
     (\<forall>k d. dash_pattern_cache self k = Some d \<longrightarrow>
        (\<exists>call \<in> S. hash_pattern_scale (fst call) (snd call) = k
            \<and> d = spec_resolve (min_dash_length self) (fst call) (snd call)))"

subsection \<open>Path segments\<close>

text \<open>The segments of the renderer's path that a path command stands for.\<close>

fun segments :: "PathCommand \<Rightarrow> QPainterPath" where
  "segments (LineTo e) = [LineToElement (vec_x e) (vec_y e)]"
| "segments (CurveTo e ctrl1 ctrl2) =
     [CubicToElement (vec_x ctrl1) (vec_y ctrl1) (vec_x ctrl2) (vec_y ctrl2) (vec_x e) (vec_y e)]"
| "segments (OtherCommand k) = []"

definition supported :: "PathCommand \<Rightarrow> bool" where
  "supported cmd \<longleftrightarrow> cmd_type cmd = LINE_TO \<or> cmd_type cmd = CURVE_TO"

subsection \<open>A concrete backend\<close>

text \<open>
  Collaborators, a backend as the constructor makes it, an entity and a property set,
  on which the theorems below are run: every text is shaped to the same two-point
  outline, whose bounding rectangle is 10 units high.
\<close>

definition collab0 :: Collaborators where
  "collab0 =
     \<lparr>IMPERIAL_UNITS = {1, 2, 3, 8, 9, 10},
      weight_name_to_value = (\<lambda>name. 400),
      prepare_string_for_rendering = (\<lambda>text dxft. text),
      counter_clockwise = (\<lambda>p. p),
      clockwise = (\<lambda>p. p),
      lower = (\<lambda>s. s),
      qfont_hash = (\<lambda>f. 0),
      addText = (\<lambda>f text. [MoveToElement 0 0, LineToElement 3 (-10)]),
      boundingRect = (\<lambda>p. \<lparr>rect_left = 0, rect_top = -10, rect_right = 3, rect_bottom = 0\<rparr>)\<rparr>"

definition params0 :: BackendParams where
  "params0 =
     \<lparr>param_point_size = None, param_lineweight_scaling = None,
      param_linetype_scaling = 2, param_min_dash_length = 1 / 10, param_show_hatch = 1\<rparr>"

definition backend0 :: PyQtBackend where
  "backend0 =
     PyQtBackend_init (Some \<lparr>scene_items = [], backgroundBrush = NoBrush\<rparr>) None True False
       params0"

definition entity0 :: Entity where
  "entity0 = \<lparr>handle = 1, dxftype = py ''TEXT''\<rparr>"

definition props0 :: Properties where
  "props0 =
     \<lparr>color = py ''#000000'', lineweight = 1 / 4, linetype_pattern = [1, 1],
      linetype_scale = 1, filling = False, units = 6, font = None\<rparr>"

definition backend1 :: PyQtBackend where
  "backend1 = backend0\<lparr>current_entity := Some entity0, entity_stack := [(entity0, props0)]\<rparr>"

text \<open>The translation by 100 in x: the translation is in the bottom row.\<close>

definition transform0 :: Matrix44 where
  "transform0 = (\<lambda>i j. if i = j then 1 else if i = 3 \<and> j = 0 then 100 else 0)"

section \<open>Lemmas\<close>

subsection \<open>Colours\<close>

lemma get_color_cases:
  "get_color self c =
     (case color_cache self c of
        Some q \<Rightarrow> (Inr q, self)
      | None \<Rightarrow>
          if length c = 7 \<or> length c = 9 then
            (Inr (QColor (allocated self)
                    (if length c = 7 then c else py ''#'' @ slice 7 9 c @ slice 1 7 c)),
             self\<lparr>allocated := Suc (allocated self),
                  color_cache := (color_cache self)(c \<mapsto>
                    QColor (allocated self)
                      (if length c = 7 then c else py ''#'' @ slice 7 9 c @ slice 1 7 c))\<rparr>)
          else (Inl (TypeError c), self))"
  by (simp add: get_color_def Let_def split: option.splits)

lemma get_color_fields:
  "linetype_scaling (snd (get_color self c)) = linetype_scaling self"
  "lineweight_scaling (snd (get_color self c)) = lineweight_scaling self"
  "min_dash_length (snd (get_color self c)) = min_dash_length self"
  "dash_pattern_cache (snd (get_color self c)) = dash_pattern_cache self"
  "scene (snd (get_color self c)) = scene self"
  "point_size (snd (get_color self c)) = point_size self"
  "current_entity (snd (get_color self c)) = current_entity self"
  "entity_stack (snd (get_color self c)) = entity_stack self"
  "text_renderer (snd (get_color self c)) = text_renderer self"
  "show_hatch (snd (get_color self c)) = show_hatch self"
  by (simp_all add: get_color_cases split: option.splits)

lemma get_color_ok:
  "length c = 7 \<or> length c = 9 \<Longrightarrow> \<exists>q s. get_color self c = (Inr q, s)"
  by (auto simp: get_color_cases split: option.splits)

lemma color_cache_ok_init: "color_cache_ok (PyQtBackend_init scn point_radius use dbg params)"
  by (simp add: color_cache_ok_def PyQtBackend_init_def)

lemma color_cache_ok_get_color:
  "color_cache_ok self \<Longrightarrow> color_cache_ok (snd (get_color self c))"
  by (auto simp: get_color_cases color_cache_ok_def split: option.splits)

subsection \<open>Dash patterns\<close>

lemma slice_to_end:
  "slice_to pattern (if int (length pattern) mod 2 \<noteq> 0 then -1 else int (length pattern))
     = (if odd (length pattern) then butlast pattern else pattern)"
proof (cases "odd (length pattern)")
  case True
  then have "int (length pattern) mod 2 \<noteq> 0"
    by presburger
  moreover have "nat (int (length pattern) - 1) = length pattern - 1"
    by simp
  ultimately show ?thesis using True
    by (simp add: slice_to_def butlast_conv_take)
next
  case False
  then have "int (length pattern) mod 2 = 0"
    by presburger
  then show ?thesis using False
    by (simp add: slice_to_def)
qed

lemma get_dash_pattern_cases:
  "get_dash_pattern self pattern scale =
     (case dash_pattern_cache self (hash_pattern_scale pattern scale) of
        Some dashes \<Rightarrow> (dashes, self)
      | None \<Rightarrow>
          (spec_resolve (min_dash_length self) pattern scale,
           self\<lparr>dash_pattern_cache := (dash_pattern_cache self)
                  (hash_pattern_scale pattern scale \<mapsto>
                     spec_resolve (min_dash_length self) pattern scale)\<rparr>))"
  unfolding get_dash_pattern_def Let_def spec_resolve_def slice_to_end
  by (simp split: option.splits)

lemma get_dash_pattern_fields:
  "min_dash_length (snd (get_dash_pattern self pattern scale)) = min_dash_length self"
  "scene (snd (get_dash_pattern self pattern scale)) = scene self"
  "current_entity (snd (get_dash_pattern self pattern scale)) = current_entity self"
  "entity_stack (snd (get_dash_pattern self pattern scale)) = entity_stack self"
  "color_cache (snd (get_dash_pattern self pattern scale)) = color_cache self"
  by (simp_all add: get_dash_pattern_cases split: option.splits)

lemma dash_entries_from_step:
  assumes "dash_entries_from self S"
  shows "dash_entries_from (snd (get_dash_pattern self pattern scale)) (insert (pattern, scale) S)"
proof (cases "dash_pattern_cache self (hash_pattern_scale pattern scale)")
  case None
  show ?thesis
    unfolding dash_entries_from_def
  proof (intro allI impI)
    fix k d
    assume a: "dash_pattern_cache (snd (get_dash_pattern self pattern scale)) k = Some d"
    show "\<exists>call \<in> insert (pattern, scale) S.
            hash_pattern_scale (fst call) (snd call) = k
            \<and> d = spec_resolve (min_dash_length (snd (get_dash_pattern self pattern scale)))
                    (fst call) (snd call)"
    proof (cases "k = hash_pattern_scale pattern scale")
      case True
      with a None have "d = spec_resolve (min_dash_length self) pattern scale"
        by (simp add: get_dash_pattern_cases)
      with True show ?thesis
        by (simp add: get_dash_pattern_fields)
    next
      case False
      with a None have "dash_pattern_cache self k = Some d"
        by (simp add: get_dash_pattern_cases)
      with assms obtain call where "call \<in> S"
        "hash_pattern_scale (fst call) (snd call) = k"
        "d = spec_resolve (min_dash_length self) (fst call) (snd call)"
        unfolding dash_entries_from_def by blast
      then show ?thesis
        by (auto simp: get_dash_pattern_fields)
    qed
  qed
next
  case (Some d)
  then have "snd (get_dash_pattern self pattern scale) = self"
    by (simp add: get_dash_pattern_cases)
  with assms show ?thesis
    unfolding dash_entries_from_def by auto
qed

lemma min_dash_length_resolve_all:
  "min_dash_length (resolve_all self calls) = min_dash_length self"
  by (induction calls arbitrary: self) (simp_all add: get_dash_pattern_fields)

lemma dash_entries_from_resolve_all:
  "dash_entries_from self S \<Longrightarrow> dash_entries_from (resolve_all self calls) (S \<union> set calls)"
proof (induction calls arbitrary: self S)
  case Nil
  then show ?case by simp
next
  case (Cons call calls)
  have "dash_entries_from (snd (get_dash_pattern self (fst call) (snd call))) (insert call S)"
    using dash_entries_from_step[OF Cons.prems, of "fst call" "snd call"] by simp
  from Cons.IH[OF this] show ?case by simp
qed

lemma spec_resolve_shape:
  "even (length (spec_resolve m pattern scale))
   \<and> (\<forall>v \<in> set (spec_resolve m pattern scale). m \<le> v)"
  by (auto simp: spec_resolve_def)

text \<open>What a cache miss computes.\<close>

lemma get_dash_pattern_miss:
  assumes "dash_pattern_cache self (hash_pattern_scale pattern scale) = None"
  shows "fst (get_dash_pattern self pattern scale)
           = map (\<lambda>dash. max (dash * scale) (min_dash_length self))
               (if odd (length pattern) then butlast pattern else pattern)"
  using assms by (simp add: get_dash_pattern_cases spec_resolve_def)

text \<open>
  On a backend whose cache was empty, every resolution has even length and no value
  below the minimum dash length, hit or miss.
\<close>

lemma get_dash_pattern_shape:
  assumes "dash_pattern_cache self = Map.empty"
  shows "even (length (fst (get_dash_pattern (resolve_all self calls) pattern scale)))
       \<and> (\<forall>v \<in> set (fst (get_dash_pattern (resolve_all self calls) pattern scale)).
             min_dash_length self \<le> v)"
proof -
  have "dash_entries_from self {}"
    using assms by (simp add: dash_entries_from_def)
  from dash_entries_from_resolve_all[OF this, of calls]
  have inv: "dash_entries_from (resolve_all self calls) (set calls)"
    by simp
  have m: "min_dash_length (resolve_all self calls) = min_dash_length self"
    by (rule min_dash_length_resolve_all)
  have "\<exists>p s. fst (get_dash_pattern (resolve_all self calls) pattern scale)
          = spec_resolve (min_dash_length self) p s"
  proof (cases "dash_pattern_cache (resolve_all self calls) (hash_pattern_scale pattern scale)")
    case None
    then have "fst (get_dash_pattern (resolve_all self calls) pattern scale)
          = spec_resolve (min_dash_length self) pattern scale"
      by (simp add: get_dash_pattern_cases m)
    then show ?thesis
      by blast
  next
    case (Some d)
    with inv obtain call where
      "d = spec_resolve (min_dash_length (resolve_all self calls)) (fst call) (snd call)"
      unfolding dash_entries_from_def by blast
    with Some have "fst (get_dash_pattern (resolve_all self calls) pattern scale)
          = spec_resolve (min_dash_length self) (fst call) (snd call)"
      by (simp add: get_dash_pattern_cases m)
    then show ?thesis
      by blast
  qed
  then obtain p s where eq: "fst (get_dash_pattern (resolve_all self calls) pattern scale)
          = spec_resolve (min_dash_length self) p s"
    by blast
  show ?thesis
    unfolding eq by (rule spec_resolve_shape)
qed

text \<open>
  On a backend whose cache was empty, a resolution is the one of its own pattern and
  scale unless an earlier resolution of another pattern or scale had the same key.
\<close>

lemma get_dash_pattern_without_collision:
  assumes "dash_pattern_cache self = Map.empty"
    and "\<forall>call \<in> set calls.
           hash_pattern_scale (fst call) (snd call) = hash_pattern_scale pattern scale
             \<longrightarrow> call = (pattern, scale)"
  shows "fst (get_dash_pattern (resolve_all self calls) pattern scale)
           = map (\<lambda>dash. max (dash * scale) (min_dash_length self))
               (if odd (length pattern) then butlast pattern else pattern)"
proof -
  have "dash_entries_from self {}"
    using assms(1) by (simp add: dash_entries_from_def)
  from dash_entries_from_resolve_all[OF this, of calls]
  have inv: "dash_entries_from (resolve_all self calls) (set calls)"
    by simp
  have m: "min_dash_length (resolve_all self calls) = min_dash_length self"
    by (rule min_dash_length_resolve_all)
  have "fst (get_dash_pattern (resolve_all self calls) pattern scale)
          = spec_resolve (min_dash_length self) pattern scale"
  proof (cases "dash_pattern_cache (resolve_all self calls) (hash_pattern_scale pattern scale)")
    case None
    then show ?thesis
      by (simp add: get_dash_pattern_cases m)
  next
    case (Some d)
    with inv obtain call where c: "call \<in> set calls"
      "hash_pattern_scale (fst call) (snd call) = hash_pattern_scale pattern scale"
      "d = spec_resolve (min_dash_length (resolve_all self calls)) (fst call) (snd call)"
      unfolding dash_entries_from_def by blast
    with assms(2) have "call = (pattern, scale)"
      by blast
    with c(3) Some show ?thesis
      by (simp add: get_dash_pattern_cases m)
  qed
  then show ?thesis
    by (simp only: spec_resolve_def)
qed

text \<open>Two pairs of a pattern and a scale with the same key.\<close>

lemma hash_collision_428:
  "hash_pattern_scale [428, 573394958037331 / 562949953421312] 60 = hash_pattern_scale [1, 1] 60"
  by code_simp

lemma hash_collision_2_61:
  "hash_pattern_scale [2305843009213693952, 1] 1 = hash_pattern_scale [1, 1] 1"
  by code_simp

subsection \<open>Pens\<close>

lemma get_pen_ok:
  assumes "length (color properties) = 7 \<or> length (color properties) = 9"
  shows "\<exists>pen s. get_pen E self properties = (Inr pen, s)"
proof -
  from get_color_ok[OF assms] obtain q s where "get_color self (color properties) = (Inr q, s)"
    by blast
  then show ?thesis
    by (auto simp: get_pen_def Let_def split: prod.splits)
qed

lemma get_pen_fields:
  "scene (snd (get_pen E self properties)) = scene self"
  "current_entity (snd (get_pen E self properties)) = current_entity self"
  "entity_stack (snd (get_pen E self properties)) = entity_stack self"
proof -
  obtain r s where g: "get_color self (color properties) = (r, s)"
    by (cases "get_color self (color properties)")
  have s: "scene s = scene self" "current_entity s = current_entity self"
    "entity_stack s = entity_stack self"
    using get_color_fields[of self "color properties"] g by simp_all
  obtain d s' where d: "get_dash_pattern s (linetype_pattern properties)
         (linetype_scale properties * get_line_pattern_factor E s (units properties)) = (d, s')"
    by (cases "get_dash_pattern s (linetype_pattern properties)
         (linetype_scale properties * get_line_pattern_factor E s (units properties))")
  have s': "scene s' = scene s" "current_entity s' = current_entity s"
    "entity_stack s' = entity_stack s"
    using get_dash_pattern_fields[of s "linetype_pattern properties"
        "linetype_scale properties * get_line_pattern_factor E s (units properties)"] d
    by simp_all
  show "scene (snd (get_pen E self properties)) = scene self"
    "current_entity (snd (get_pen E self properties)) = current_entity self"
    "entity_stack (snd (get_pen E self properties)) = entity_stack self"
    using g d s s' by (auto simp: get_pen_def Let_def split: sum.splits)
qed

subsection \<open>Font weights\<close>

lemma floor_tenth: "\<lfloor>(of_int w / 10 + 10 :: rat)\<rfloor> = w div 10 + 10"
  by (simp add: floor_divide_of_int_eq[where ?'a = rat, symmetric] del: floor_divide_of_int_eq)

lemma py_int_clamp:
  "min (max 0 (py_int (of_int w / 10 + 10))) 99 = min (max 0 (w div 10 + 10)) (99::int)"
proof -
  define x :: rat where "x = of_int w / 10 + 10"
  have fl: "\<lfloor>x\<rfloor> = w div 10 + 10"
    unfolding x_def by (rule floor_tenth)
  show ?thesis
  proof (cases "0 \<le> x")
    case True
    then show ?thesis
      unfolding x_def[symmetric] fl[symmetric] by (simp add: py_int_def)
  next
    case False
    then have "\<lceil>x\<rceil> \<le> 0"
      by (simp add: ceiling_le_iff)
    moreover have "\<lfloor>x\<rfloor> \<le> 0"
      using False by (simp add: floor_le_iff)
    ultimately show ?thesis
      using False unfolding x_def[symmetric] fl[symmetric] py_int_def by simp
  qed
qed

subsection \<open>Paths\<close>

lemma extend_commands_supported:
  "\<forall>cmd \<in> set cmds. supported cmd \<Longrightarrow>
     extend_commands qt_path cmds = (None, qt_path @ concat (map segments cmds))"
  by (induction qt_path cmds rule: extend_commands.induct) (simp_all add: supported_def)

lemma extend_commands_unsupported:
  "\<exists>cmd \<in> set cmds. \<not> supported cmd \<Longrightarrow>
     \<exists>k qt_path'. OtherCommand k \<in> set cmds
        \<and> extend_commands qt_path cmds = (Some (ValueError (OTHER_COMMAND k)), qt_path')"
  by (induction qt_path cmds rule: extend_commands.induct) (auto simp: supported_def)

lemma extend_commands_error:
  "fst (extend_commands qt_path cmds) = fst (extend_commands qt_path' cmds)"
  by (induction qt_path cmds arbitrary: qt_path' rule: extend_commands.induct) simp_all

subsection \<open>Text\<close>

lemma dropWhile_all: "(\<forall>x \<in> set (dropWhile P xs). P x) \<longleftrightarrow> (\<forall>x \<in> set xs. P x)"
proof
  assume a: "\<forall>x \<in> set (dropWhile P xs). P x"
  have "dropWhile P xs = []"
  proof (rule ccontr)
    assume n: "dropWhile P xs \<noteq> []"
    then have "\<not> P (hd (dropWhile P xs))"
      by (rule hd_dropWhile)
    moreover have "hd (dropWhile P xs) \<in> set (dropWhile P xs)"
      using n by simp
    ultimately show False
      using a by blast
  qed
  then show "\<forall>x \<in> set xs. P x"
    by (simp add: dropWhile_eq_Nil_conv)
next
  assume "\<forall>x \<in> set xs. P x"
  then show "\<forall>x \<in> set (dropWhile P xs). P x"
    by (auto dest: set_dropWhileD)
qed

lemma strip_empty_iff: "strip s = [] \<longleftrightarrow> (\<forall>c \<in> set s. isspace c)"
  by (simp add: strip_def dropWhile_eq_Nil_conv dropWhile_all)

lemma map_point_combined:
  "map_point (matrix_to_qtransform (matmul (Matrix44_scale sc (- sc) 0) t)) p
     = map_point (matrix_to_qtransform t) (sc * fst p, - sc * snd p)"
  by (simp add: map_point_def matrix_to_qtransform_def get_2d_transformation_def matmul_def
      Matrix44_scale_def isAffine_def Let_def algebra_simps)

lemma map_element_comp:
  "map_element f (map_element g e) = map_element (\<lambda>p. f (g p)) e"
  by (cases e) (simp_all add: Let_def)

lemma map_path_combined:
  "map_path (matrix_to_qtransform (matmul (Matrix44_scale sc (- sc) 0) t)) path
     = map_path (matrix_to_qtransform t)
         (map (map_element (\<lambda>p. (sc * fst p, - sc * snd p))) path)"
proof -
  have "map_point (matrix_to_qtransform (matmul (Matrix44_scale sc (- sc) 0) t))
          = (\<lambda>p. map_point (matrix_to_qtransform t) (sc * fst p, - sc * snd p))"
    by (rule ext) (rule map_point_combined)
  then show ?thesis
    by (simp add: map_path_def map_element_comp)
qed

subsection \<open>The colour cache of a reachable backend\<close>

lemma color_cache_ok_cong:
  "color_cache s' = color_cache s \<Longrightarrow> color_cache_ok s' = color_cache_ok s"
  by (simp add: color_cache_ok_def)

lemma color_cache_get_dash_pattern:
  "color_cache_ok (snd (get_dash_pattern self pattern scale)) = color_cache_ok self"
  by (rule color_cache_ok_cong) (rule get_dash_pattern_fields)

lemma color_cache_ok_get_pen:
  assumes "color_cache_ok self"
  shows "color_cache_ok (snd (get_pen E self properties))"
proof -
  obtain r s where g: "get_color self (color properties) = (r, s)"
    by (cases "get_color self (color properties)")
  have s: "color_cache_ok s"
    using color_cache_ok_get_color[OF assms, of "color properties"] g by simp
  show ?thesis
    using g s color_cache_get_dash_pattern
    by (cases r) (simp_all add: get_pen_def Let_def split: prod.splits, metis snd_conv)
qed

lemma color_cache_ok_get_brush:
  assumes "color_cache_ok self"
  shows "color_cache_ok (snd (get_brush self properties))"
proof -
  obtain r s where g: "get_color self (color properties) = (r, s)"
    by (cases "get_color self (color properties)")
  have s: "color_cache_ok s"
    using color_cache_ok_get_color[OF assms, of "color properties"] g by simp
  show ?thesis
    using g s assms by (cases r) (simp_all add: get_brush_def)
qed

lemma color_cache_ok_add_item:
  "color_cache_ok (snd (add_item self item)) = color_cache_ok self"
  by (rule color_cache_ok_cong) (simp add: add_item_def split: option.splits)

lemma color_cache_ok_text_renderer:
  "color_cache_ok (self\<lparr>text_renderer := tr\<rparr>) = color_cache_ok self"
  by (simp add: color_cache_ok_def)

lemma color_cache_ok_set_background:
  assumes "color_cache_ok self"
  shows "color_cache_ok (snd (set_background self c))"
proof -
  obtain r s where g: "get_color self c = (r, s)"
    by (cases "get_color self c")
  have s: "color_cache_ok s"
    using color_cache_ok_get_color[OF assms, of c] g by simp
  show ?thesis
    using g s assms
    by (cases r) (auto simp: set_background_def color_cache_ok_def split: option.splits)
qed

lemma color_cache_ok_draw_point:
  assumes "color_cache_ok self"
  shows "color_cache_ok (snd (draw_point self pos properties))"
proof -
  obtain r s where g: "get_color self (color properties) = (r, s)"
    by (cases "get_color self (color properties)")
  have s: "color_cache_ok s"
    using color_cache_ok_get_color[OF assms, of "color properties"] g by simp
  show ?thesis
    using g s by (cases r) (simp_all add: draw_point_def Let_def color_cache_ok_add_item)
qed

lemma color_cache_ok_with_pen:
  assumes "color_cache_ok self"
  shows "color_cache_ok
           (snd (case get_pen E self properties of
                   (Inl e, s) \<Rightarrow> (Inl e, s)
                 | (Inr pen, s) \<Rightarrow> add_item s (mk pen)))"
proof -
  obtain r s where g: "get_pen E self properties = (r, s)"
    by (cases "get_pen E self properties")
  have s: "color_cache_ok s"
    using color_cache_ok_get_pen[OF assms, of E properties] g by simp
  show ?thesis
    using g s by (cases r) (simp_all add: color_cache_ok_add_item)
qed

lemma color_cache_ok_draw_line:
  assumes "color_cache_ok self"
  shows "color_cache_ok (snd (draw_line E self start end properties))"
  using assms color_cache_ok_with_pen[OF assms]
  by (simp add: draw_line_def split: option.splits)

lemma color_cache_ok_draw_path:
  assumes "color_cache_ok self"
  shows "color_cache_ok (snd (draw_path E self path properties))"
  using assms color_cache_ok_with_pen[OF assms]
  by (simp add: draw_path_def split: option.splits prod.splits)

lemma color_cache_ok_draw_filled_polygon:
  assumes "color_cache_ok self"
  shows "color_cache_ok (snd (draw_filled_polygon self points properties))"
proof -
  obtain r s where g: "get_brush self properties = (r, s)"
    by (cases "get_brush self properties")
  have s: "color_cache_ok s"
    using color_cache_ok_get_brush[OF assms, of properties] g by simp
  show ?thesis
    using g s by (cases r) (simp_all add: draw_filled_polygon_def Let_def color_cache_ok_add_item)
qed

lemma color_cache_ok_draw_filled_paths:
  assumes "color_cache_ok self"
  shows "color_cache_ok (snd (draw_filled_paths E self paths holes properties))"
proof -
  obtain r s where g: "get_pen E self properties = (r, s)"
    by (cases "get_pen E self properties")
  have s: "color_cache_ok s"
    using color_cache_ok_get_pen[OF assms, of E properties] g by simp
  obtain r' s' where b: "get_brush s properties = (r', s')"
    by (cases "get_brush s properties")
  have s': "color_cache_ok s'"
    using color_cache_ok_get_brush[OF s, of properties] b by simp
  show ?thesis
    using assms g s b s'
    by (cases r; cases r')
      (simp_all add: draw_filled_paths_def color_cache_ok_add_item
        split: option.splits prod.splits)
qed

lemma color_cache_ok_draw_text:
  assumes "color_cache_ok self"
  shows "color_cache_ok (snd (draw_text E self text transform properties cap_h))"
proof (cases "strip text = [] \<or> current_entity self = None")
  case True
  then show ?thesis
    using assms by (auto simp: draw_text_def)
next
  case False
  then obtain entity where e: "strip text \<noteq> []" "current_entity self = Some entity"
    by auto
  let ?q = "get_qfont E self (font properties)"
  obtain r tr where sc: "get_scale E (text_renderer self) cap_h (Some ?q) = (r, tr)"
    by (cases "get_scale E (text_renderer self) cap_h (Some ?q)")
  show ?thesis
  proof (cases r)
    case (Inl err)
    with e sc assms show ?thesis
      by (simp add: draw_text_def Let_def color_cache_ok_text_renderer)
  next
    case (Inr scale)
    obtain path tr' where p: "get_text_path E tr
        (prepare_string_for_rendering E text (dxftype entity)) (Some ?q) = (path, tr')"
      by (cases "get_text_path E tr
        (prepare_string_for_rendering E text (dxftype entity)) (Some ?q)")
    let ?s = "self\<lparr>text_renderer := tr'\<rparr>"
    have s: "color_cache_ok ?s"
      using assms by (simp add: color_cache_ok_text_renderer)
    obtain r' s' where g: "get_color ?s (color properties) = (r', s')"
      by (cases "get_color ?s (color properties)")
    have s': "color_cache_ok s'"
      using color_cache_ok_get_color[OF s, of "color properties"] g by simp
    show ?thesis
      using e sc Inr p g s s'
      by (cases r')
        (simp_all add: draw_text_def Let_def color_cache_ok_add_item split: option.splits)
  qed
qed

lemma color_cache_get_text_line_width:
  "color_cache (snd (get_text_line_width E self text cap_h fnt)) = color_cache self"
  by (simp add: get_text_line_width_def Let_def split: prod.splits sum.splits)

lemma reachable_color_cache_ok: "reachable E self \<Longrightarrow> color_cache_ok self"
proof (induction rule: reachable.induct)
  case (init scn radius cached dbg ps)
  show ?case by (rule color_cache_ok_init)
next
  case (entity self e st)
  then show ?case by (simp add: color_cache_ok_def)
next
  case (set_scene self scn)
  then show ?case by (simp add: color_cache_ok_def set_scene_def)
next
  case (clear_text_cache self)
  then show ?case by (simp add: color_cache_ok_def clear_text_cache_def)
next
  case (clear self)
  then show ?case by (simp add: color_cache_ok_def clear_def split: option.splits)
next
  case (set_background self c)
  then show ?case by (simp add: color_cache_ok_set_background)
next
  case (draw_point self pos properties)
  then show ?case by (simp add: color_cache_ok_draw_point)
next
  case (draw_line self start finish properties)
  then show ?case by (simp add: color_cache_ok_draw_line)
next
  case (draw_path self path properties)
  then show ?case by (simp add: color_cache_ok_draw_path)
next
  case (draw_filled_paths self paths holes properties)
  then show ?case by (simp add: color_cache_ok_draw_filled_paths)
next
  case (draw_filled_polygon self points properties)
  then show ?case by (simp add: color_cache_ok_draw_filled_polygon)
next
  case (draw_text self t transform properties cap_h)
  then show ?case by (simp add: color_cache_ok_draw_text)
next
  case (get_text_line_width self t cap_h fnt)
  then show ?case
    using color_cache_ok_cong[OF color_cache_get_text_line_width] by simp
qed

section \<open>The claims\<close>

subsection \<open>C1: the scale of the dash pattern\<close>

text \<open>
  C1, as amended. For every pen built for a dash pattern of more than one element while
  the linetype scaling is not zero, the scale passed to the resolution of the dash
  pattern is the linetype scale of the property set times the pattern factor, and the
  pattern factor is the constant of the unit system (750 for imperial units, 30
  otherwise) multiplied by the linetype scaling, not divided by it. The pattern factor
  takes the linetype scaling as 1 when it is zero.
\<close>

theorem get_pen_dash_scale:
  assumes "length (linetype_pattern properties) > 1" and "linetype_scaling self \<noteq> 0"
  shows "get_pen E self properties =
           (case get_color self (color properties) of
              (Inl e, s) \<Rightarrow> (Inl e, s)
            | (Inr qt_color, s) \<Rightarrow>
                (let (dashes, s') =
                       get_dash_pattern s (linetype_pattern properties)
                         (linetype_scale properties *
                            ((if units properties \<in> IMPERIAL_UNITS E then 750 else 30)
                               * linetype_scaling self))
                 in (Inr (Pen qt_color
                            (lineweight properties / (3527 / 10000) * lineweight_scaling self)
                            True RoundJoin (Some dashes)), s')))
       \<and> get_line_pattern_factor E self' u =
           (if u \<in> IMPERIAL_UNITS E then 750 else 30)
             * (if linetype_scaling self' = 0 then 1 else linetype_scaling self')"
proof (cases "get_color self (color properties)")
  case (Pair r s)
  have "linetype_scaling s = linetype_scaling self"
    using get_color_fields(1)[of self "color properties"] Pair by simp
  with Pair assms show ?thesis
    by (simp add: get_pen_def get_line_pattern_factor_def Let_def split: sum.splits)
qed

theorem get_pen_dash_scale_witness:
  "length (linetype_pattern props0) > 1 \<and> linetype_scaling backend0 \<noteq> 0
   \<and> fst (get_pen collab0 backend0 props0) =
       Inr (Pen (QColor 0 (py ''#000000'')) (5000 / 3527) True RoundJoin (Some [60, 60]))"
proof -
  have h1: "length (linetype_pattern props0) > 1"
    by (simp add: props0_def)
  have h2: "linetype_scaling backend0 \<noteq> 0"
    by (simp add: backend0_def params0_def PyQtBackend_init_def)
  show ?thesis
    using h1 h2 get_pen_dash_scale[OF h1 h2, of collab0 backend0 0]
    by (simp add: props0_def backend0_def params0_def collab0_def PyQtBackend_init_def
        get_color_cases get_dash_pattern_cases spec_resolve_def)
qed

text \<open>
  C1 as stated fails: with a linetype scaling of 2, metric units, a linetype scale of 1
  and the pattern \<open>(1, 1)\<close>, the code passes the scale \<open>1 * (30 * 2) = 60\<close> and the pen
  has the dashes \<open>(60, 60)\<close>, where the scale of the claim, \<open>1 * (30 / 2) = 15\<close>, gives
  \<open>(15, 15)\<close>.
\<close>

theorem get_pen_scale_not_divided:
  "length (linetype_pattern props0) > 1 \<and> linetype_scaling backend0 \<noteq> 0
   \<and> fst (get_pen collab0 backend0 props0) =
       Inr (Pen (QColor 0 (py ''#000000'')) (5000 / 3527) True RoundJoin (Some [60, 60]))
   \<and> spec_dash_scale collab0 backend0 props0 = 15
   \<and> fst (spec_get_pen collab0 backend0 props0) =
       Inr (Pen (QColor 0 (py ''#000000'')) (5000 / 3527) True RoundJoin (Some [15, 15]))
   \<and> get_pen collab0 backend0 props0 \<noteq> spec_get_pen collab0 backend0 props0"
proof -
  have a: "fst (get_pen collab0 backend0 props0) =
       Inr (Pen (QColor 0 (py ''#000000'')) (5000 / 3527) True RoundJoin (Some [60, 60]))"
    by (simp add: get_pen_def get_line_pattern_factor_def props0_def backend0_def params0_def
        collab0_def PyQtBackend_init_def get_color_cases get_dash_pattern_cases spec_resolve_def)
  have b: "fst (spec_get_pen collab0 backend0 props0) =
       Inr (Pen (QColor 0 (py ''#000000'')) (5000 / 3527) True RoundJoin (Some [15, 15]))"
    by (simp add: spec_get_pen_def spec_dash_scale_def props0_def backend0_def params0_def
        collab0_def PyQtBackend_init_def get_color_cases get_dash_pattern_cases spec_resolve_def)
  have c: "spec_dash_scale collab0 backend0 props0 = 15"
    by (simp add: spec_dash_scale_def props0_def backend0_def params0_def collab0_def
        PyQtBackend_init_def)
  have d: "get_pen collab0 backend0 props0 \<noteq> spec_get_pen collab0 backend0 props0"
  proof
    assume "get_pen collab0 backend0 props0 = spec_get_pen collab0 backend0 props0"
    then have "fst (get_pen collab0 backend0 props0) = fst (spec_get_pen collab0 backend0 props0)"
      by simp
    then show False
      unfolding a b by simp
  qed
  have h1: "length (linetype_pattern props0) > 1"
    by (simp add: props0_def)
  have h2: "linetype_scaling backend0 \<noteq> 0"
    by (simp add: backend0_def params0_def PyQtBackend_init_def)
  show ?thesis
    by (intro conjI h1 h2 a b c d)
qed

subsection \<open>C2: the weight of a font\<close>

text \<open>
  C2, as amended. For every font weight, after the lookup of its numeric value when it
  is a named level, the weight for the renderer is \<open>weight / 10 + 10\<close> truncated to an
  integer (not rounded) and clamped to the range 0 to 99, which is
  \<open>clamp(floor(weight / 10) + 10, 0, 99)\<close>; it sends 1000 to 99, 400 to 50 and 0 to 10.
\<close>

theorem map_weight_truncates:
  "map_weight E w = min (max 0 (weight_value E w div 10 + 10)) 99
   \<and> map_weight E (WeightName name) = map_weight E (WeightValue (weight_name_to_value E name))
   \<and> map_weight E (WeightValue 1000) = 99
   \<and> map_weight E (WeightValue 400) = 50
   \<and> map_weight E (WeightValue 0) = 10"
proof -
  have g: "map_weight E w = min (max 0 (weight_value E w div 10 + 10)) 99" for w
    unfolding map_weight_def weight_value_def Let_def by (rule py_int_clamp)
  show ?thesis
    by (simp add: g weight_value_def)
qed

text \<open>
  C2 as stated fails: the weight 406 is mapped to \<open>int(40.6 + 10) = 50\<close>, where
  \<open>round(40.6) + 10\<close> is 51.
\<close>

theorem map_weight_not_rounded:
  "map_weight collab0 (WeightValue 406) = 50 \<and> spec_weight_mapping 406 = 51"
  by (simp add: map_weight_def py_int_def spec_weight_mapping_def round_def floor_eq_iff)

subsection \<open>C3: colours of a wrong length\<close>

text \<open>
  C3. In every backend whose colour cache is as \<open>get_color\<close> keeps it, the resolution of
  a colour string whose length is neither 7 nor 9 raises the error (\<open>TypeError\<close> in the
  code) and leaves the backend as it was, and building a pen or drawing a point with
  such a colour raises the same error and emits nothing; the resolution of a string of
  length 7 or 9 raises no error.
\<close>

theorem get_color_error_iff:
  assumes "color_cache_ok self"
  shows "(length c \<noteq> 7 \<and> length c \<noteq> 9 \<longrightarrow>
            get_color self c = (Inl (TypeError c), self)
          \<and> get_pen E self (properties\<lparr>color := c\<rparr>) = (Inl (TypeError c), self)
          \<and> draw_point self pos (properties\<lparr>color := c\<rparr>) = (Inl (TypeError c), self))
       \<and> (length c = 7 \<or> length c = 9 \<longrightarrow> (\<exists>q s. get_color self c = (Inr q, s)))"
proof (intro conjI impI)
  assume a: "length c \<noteq> 7 \<and> length c \<noteq> 9"
  have n: "color_cache self c = None"
  proof (cases "color_cache self c")
    case None
    then show ?thesis .
  next
    case (Some q)
    with assms a show ?thesis
      unfolding color_cache_ok_def by blast
  qed
  with a show g: "get_color self c = (Inl (TypeError c), self)"
    by (simp add: get_color_cases)
  show "get_pen E self (properties\<lparr>color := c\<rparr>) = (Inl (TypeError c), self)"
    by (simp add: get_pen_def g)
  show "draw_point self pos (properties\<lparr>color := c\<rparr>) = (Inl (TypeError c), self)"
    by (simp add: draw_point_def g)
next
  assume "length c = 7 \<or> length c = 9"
  then show "\<exists>q s. get_color self c = (Inr q, s)"
    by (rule get_color_ok)
qed

theorem get_color_error_iff_witness:
  "color_cache_ok backend0
   \<and> length (py ''red'') \<noteq> 7 \<and> length (py ''red'') \<noteq> 9
   \<and> get_color backend0 (py ''red'') = (Inl (TypeError (py ''red'')), backend0)
   \<and> draw_point backend0 (Vector 0 0 0) (props0\<lparr>color := py ''red''\<rparr>)
       = (Inl (TypeError (py ''red'')), backend0)
   \<and> (length (py ''#ff0000'') = 7 \<or> length (py ''#ff0000'') = 9)
   \<and> fst (get_color backend0 (py ''#ff0000'')) = Inr (QColor 0 (py ''#ff0000''))"
proof -
  have h: "color_cache_ok backend0"
    unfolding backend0_def by (rule color_cache_ok_init)
  have e: "fst (get_color backend0 (py ''#ff0000'')) = Inr (QColor 0 (py ''#ff0000''))"
    by (simp add: get_color_cases backend0_def PyQtBackend_init_def)
  show ?thesis
    using h e get_color_error_iff[OF h, of "py ''red''" collab0 props0 "Vector 0 0 0"]
      get_color_error_iff[OF h, of "py ''#ff0000''" collab0 props0 "Vector 0 0 0"]
    by simp
qed

subsection \<open>C4: the segments of a path\<close>

text \<open>
  C4. For every path whose commands are all lines and cubic curves, the renderer's path
  is extended by a move to the start point followed by the segment of each command, a
  line for a line and a cubic curve for a curve, in order, and drawing the path (with a
  scene and a colour of length 7 or 9) emits exactly this path as one item. For every
  path with a command of another kind, the conversion raises the error (\<open>ValueError\<close>
  in the code) for a command of the path, and drawing the path raises the same error
  and leaves the backend as it was.
\<close>

theorem extend_qt_path_segments:
  "((\<forall>cmd \<in> set (path_commands path). cmd_type cmd = LINE_TO \<or> cmd_type cmd = CURVE_TO) \<longrightarrow>
      extend_qt_path qt_path path =
        (None, qt_path @ MoveToElement (vec_x (path_start path)) (vec_y (path_start path))
                 # concat (map segments (path_commands path)))
      \<and> (scene self = Some sc \<and> (length (color properties) = 7 \<or> length (color properties) = 9) \<longrightarrow>
           (\<exists>pen s. get_pen E self properties = (Inr pen, s)
              \<and> draw_path E self path properties =
                  (Inr (), s\<lparr>scene := Some (sc\<lparr>scene_items := scene_items sc @
                     [set_item_data s (new_item
                        (PathShape (MoveToElement (vec_x (path_start path)) (vec_y (path_start path))
                                     # concat (map segments (path_commands path))))
                        pen no_fill)]\<rparr>)\<rparr>))))
   \<and> ((\<exists>cmd \<in> set (path_commands path). cmd_type cmd \<noteq> LINE_TO \<and> cmd_type cmd \<noteq> CURVE_TO) \<longrightarrow>
        (\<exists>k qt_path'. OtherCommand k \<in> set (path_commands path)
           \<and> extend_qt_path qt_path path = (Some (ValueError (OTHER_COMMAND k)), qt_path')
           \<and> draw_path E self path properties = (Inl (ValueError (OTHER_COMMAND k)), self)))"
proof (intro conjI impI)
  assume a: "\<forall>cmd \<in> set (path_commands path). cmd_type cmd = LINE_TO \<or> cmd_type cmd = CURVE_TO"
  then have sup: "\<forall>cmd \<in> set (path_commands path). supported cmd"
    by (simp add: supported_def)
  show e: "extend_qt_path qt_path path =
        (None, qt_path @ MoveToElement (vec_x (path_start path)) (vec_y (path_start path))
                 # concat (map segments (path_commands path)))" for qt_path
    by (simp add: extend_qt_path_def Let_def extend_commands_supported[OF sup])
  assume b: "scene self = Some sc \<and> (length (color properties) = 7 \<or> length (color properties) = 9)"
  then obtain pen s where p: "get_pen E self properties = (Inr pen, s)"
    using get_pen_ok by blast
  have "scene s = Some sc"
    using get_pen_fields(1)[of E self properties] p b by simp
  then show "\<exists>pen s. get_pen E self properties = (Inr pen, s)
              \<and> draw_path E self path properties =
                  (Inr (), s\<lparr>scene := Some (sc\<lparr>scene_items := scene_items sc @
                     [set_item_data s (new_item
                        (PathShape (MoveToElement (vec_x (path_start path)) (vec_y (path_start path))
                                     # concat (map segments (path_commands path))))
                        pen no_fill)]\<rparr>)\<rparr>)"
    using p b by (simp add: draw_path_def e[of "[]"] add_item_def)
next
  assume "\<exists>cmd \<in> set (path_commands path). cmd_type cmd \<noteq> LINE_TO \<and> cmd_type cmd \<noteq> CURVE_TO"
  then have "\<exists>cmd \<in> set (path_commands path). \<not> supported cmd"
    by (simp add: supported_def)
  from extend_commands_unsupported[OF this]
  obtain k qt_path' where k: "OtherCommand k \<in> set (path_commands path)"
    "extend_qt_path qt_path path = (Some (ValueError (OTHER_COMMAND k)), qt_path')"
    unfolding extend_qt_path_def Let_def by blast
  have "fst (extend_qt_path [] path) = fst (extend_qt_path qt_path path)"
    unfolding extend_qt_path_def Let_def by (rule extend_commands_error)
  with k(2) have "fst (extend_qt_path [] path) = Some (ValueError (OTHER_COMMAND k))"
    by simp
  then have "draw_path E self path properties = (Inl (ValueError (OTHER_COMMAND k)), self)"
    by (cases "extend_qt_path [] path") (simp add: draw_path_def)
  with k show "\<exists>k qt_path'. OtherCommand k \<in> set (path_commands path)
           \<and> extend_qt_path qt_path path = (Some (ValueError (OTHER_COMMAND k)), qt_path')
           \<and> draw_path E self path properties = (Inl (ValueError (OTHER_COMMAND k)), self)"
    by blast
qed

theorem extend_qt_path_segments_witness:
  "cmd_type (LineTo (Vector 1 0 0)) = LINE_TO
   \<and> cmd_type (CurveTo (Vector 4 4 0) (Vector 2 0 0) (Vector 4 2 0)) = CURVE_TO
   \<and> extend_qt_path []
        \<lparr>path_start = Vector 0 0 0,
         path_commands = [LineTo (Vector 1 0 0),
                          CurveTo (Vector 4 4 0) (Vector 2 0 0) (Vector 4 2 0)]\<rparr>
       = (None, [MoveToElement 0 0, LineToElement 1 0, CubicToElement 2 0 4 2 4 4])
   \<and> scene backend0 = Some \<lparr>scene_items = [], backgroundBrush = NoBrush\<rparr>
   \<and> (length (color props0) = 7 \<or> length (color props0) = 9)
   \<and> fst (draw_path collab0 backend0
        \<lparr>path_start = Vector 0 0 0,
         path_commands = [LineTo (Vector 1 0 0),
                          CurveTo (Vector 4 4 0) (Vector 2 0 0) (Vector 4 2 0)]\<rparr> props0) = Inr ()
   \<and> cmd_type (OtherCommand 7) \<noteq> LINE_TO \<and> cmd_type (OtherCommand 7) \<noteq> CURVE_TO
   \<and> draw_path collab0 backend0
        \<lparr>path_start = Vector 0 0 0,
         path_commands = [LineTo (Vector 1 0 0), OtherCommand 7]\<rparr> props0
       = (Inl (ValueError (OTHER_COMMAND 7)), backend0)"
proof -
  have h1: "scene backend0 = Some \<lparr>scene_items = [], backgroundBrush = NoBrush\<rparr>"
    by (simp add: backend0_def PyQtBackend_init_def)
  have h2: "length (color props0) = 7 \<or> length (color props0) = 9"
    by (simp add: props0_def)
  show ?thesis
    using h1 h2
      extend_qt_path_segments[of
        "\<lparr>path_start = Vector 0 0 0,
          path_commands = [LineTo (Vector 1 0 0),
                           CurveTo (Vector 4 4 0) (Vector 2 0 0) (Vector 4 2 0)]\<rparr>"
        "[]" backend0 "\<lparr>scene_items = [], backgroundBrush = NoBrush\<rparr>" props0 collab0]
      extend_qt_path_segments[of
        "\<lparr>path_start = Vector 0 0 0,
          path_commands = [LineTo (Vector 1 0 0), OtherCommand 7]\<rparr>"
        "[]" backend0 "\<lparr>scene_items = [], backgroundBrush = NoBrush\<rparr>" props0 collab0]
    by auto
qed

subsection \<open>C5: the resolution of a dash pattern\<close>

text \<open>
  C5 says that for every dash pattern and scale the resolved pattern drops exactly the
  last element when the length of the pattern is odd, so that the result has even
  length, and that every resolved element is the original length multiplied by the
  scale and raised to the minimum dash length. The code computes exactly this whenever
  the cache has no entry under the key (\<open>get_dash_pattern_miss\<close>), and also on a hit
  unless another pattern or scale had the same key (\<open>get_dash_pattern_without_collision\<close>);
  the length is even and no value is below the minimum in every case
  (\<open>get_dash_pattern_shape\<close>). But the key is \<open>hash((pattern, scale))\<close>, not the pattern
  and the scale, and on a hit under the key of another pattern the code returns the
  dashes of that pattern.

  The failing input, on a new backend with a linetype scaling of 2 and metric units: the
  pattern \<open>(1.0, 1.0)\<close> and then the pattern \<open>(428.0, 1.0185540553872325)\<close>, both with
  the linetype scale 1, hence the scale 60. The two keys are equal, and the second
  resolution returns \<open>(60, 60)\<close>, the dashes of the first, where the lengths times the
  scale are \<open>(25680, 61.113\<dots>)\<close>; the pens of two draw calls show the same. So do the
  patterns \<open>(1.0, 1.0)\<close> and \<open>(2.0 ** 61, 1.0)\<close> with the scale 1, whose items have the same
  hashes.
\<close>

theorem get_dash_pattern_collision:
  "hash_pattern_scale [428, 573394958037331 / 562949953421312] 60 = hash_pattern_scale [1, 1] 60
   \<and> fst (get_dash_pattern (snd (get_dash_pattern backend0 [1, 1] 60))
            [428, 573394958037331 / 562949953421312] 60) = [60, 60]
   \<and> map (\<lambda>dash. max (dash * 60) (min_dash_length backend0))
         [428, 573394958037331 / 562949953421312]
       = [25680, 8600924370559965 / 140737488355328]
   \<and> fst (get_pen collab0 (snd (get_pen collab0 backend0 props0))
            (props0\<lparr>linetype_pattern := [428, 573394958037331 / 562949953421312]\<rparr>))
       = Inr (Pen (QColor 0 (py ''#000000'')) (5000 / 3527) True RoundJoin (Some [60, 60]))
   \<and> fst (get_dash_pattern (snd (get_dash_pattern backend0 [1, 1] 1))
            [2305843009213693952, 1] 1) = [1, 1]
   \<and> map (\<lambda>dash. max (dash * 1) (min_dash_length backend0)) [2305843009213693952, 1]
       = [2305843009213693952, 1]"
proof -
  have m: "min_dash_length backend0 = 1 / 10" "dash_pattern_cache backend0 = Map.empty"
    by (simp_all add: backend0_def params0_def PyQtBackend_init_def)
  have a: "fst (get_dash_pattern (snd (get_dash_pattern backend0 [1, 1] 60))
            [428, 573394958037331 / 562949953421312] 60) = [60, 60]"
    by (simp add: get_dash_pattern_cases hash_collision_428 m spec_resolve_def)
  have b: "map (\<lambda>dash. max (dash * 60) (min_dash_length backend0))
         [428, 573394958037331 / 562949953421312]
       = [25680, 8600924370559965 / 140737488355328]"
    by (simp add: m)
  have c: "fst (get_pen collab0 (snd (get_pen collab0 backend0 props0))
            (props0\<lparr>linetype_pattern := [428, 573394958037331 / 562949953421312]\<rparr>))
       = Inr (Pen (QColor 0 (py ''#000000'')) (5000 / 3527) True RoundJoin (Some [60, 60]))"
    by (simp add: get_pen_def get_line_pattern_factor_def get_color_cases
        get_dash_pattern_cases hash_collision_428 spec_resolve_def
        props0_def backend0_def params0_def collab0_def PyQtBackend_init_def)
  have d: "fst (get_dash_pattern (snd (get_dash_pattern backend0 [1, 1] 1))
            [2305843009213693952, 1] 1) = [1, 1]"
    by (simp add: get_dash_pattern_cases hash_collision_2_61 m spec_resolve_def)
  have e: "map (\<lambda>dash. max (dash * 1) (min_dash_length backend0)) [2305843009213693952, 1]
       = [2305843009213693952, 1]"
    by (simp add: m)
  show ?thesis
    by (intro conjI hash_collision_428 a b c d e)
qed

subsection \<open>C6: the scale and the placement of a text\<close>

text \<open>
  C6. For every text that is not blank, drawn for an entity on a backend with a scene,
  in a colour of length 7 or 9 and a font whose measured cap height is not zero, the
  scale of the text is the desired cap height divided by the measured cap height of the
  resolved font, and the one item that is emitted is the outline of the text with every
  point first scaled by the scale in x and by the negated scale in y and then mapped by
  the caller's transformation. A measured cap height of 10 and a desired cap height of 5
  give the scale 1/2 (the witness).
\<close>

theorem draw_text_placement:
  assumes "\<not> (\<forall>c \<in> set text. isspace c)"
    and "current_entity self = Some entity"
    and "scene self = Some sc"
    and "length (color properties) = 7 \<or> length (color properties) = 9"
    and "TextRenderer_get_font_measurements E (text_renderer self)
           (Some (get_qfont E self (font properties))) = (measurements, tr)"
    and "cap_height measurements \<noteq> 0"
    and "get_text_path E tr (prepare_string_for_rendering E text (dxftype entity))
           (Some (get_qfont E self (font properties))) = (outline, tr')"
  shows "get_scale E (text_renderer self) cap_h (Some (get_qfont E self (font properties)))
           = (Inr (cap_h / cap_height measurements), tr)
       \<and> (\<exists>qt_color s.
             get_color (self\<lparr>text_renderer := tr'\<rparr>) (color properties) = (Inr qt_color, s)
           \<and> draw_text E self text transform properties cap_h =
               (Inr (), s\<lparr>scene := Some (sc\<lparr>scene_items := scene_items sc @
                  [set_item_data s (new_item
                     (PathShape
                        (map_path (matrix_to_qtransform transform)
                           (map (map_element
                                   (\<lambda>p. (cap_h / cap_height measurements * fst p,
                                         - (cap_h / cap_height measurements) * snd p)))
                              outline)))
                     no_line (SolidPattern qt_color))]\<rparr>)\<rparr>))
       \<and> map_path (matrix_to_qtransform
                    (matmul (Matrix44_scale (cap_h / cap_height measurements)
                               (- (cap_h / cap_height measurements)) 0) transform)) outline
           = map_path (matrix_to_qtransform transform)
               (map (map_element
                       (\<lambda>p. (cap_h / cap_height measurements * fst p,
                             - (cap_h / cap_height measurements) * snd p)))
                  outline)"
proof -
  have sc: "get_scale E (text_renderer self) cap_h (Some (get_qfont E self (font properties)))
           = (Inr (cap_h / cap_height measurements), tr)"
    using assms(5,6) by (simp add: get_scale_def)
  from get_color_ok[OF assms(4)] obtain q s where
    g: "get_color (self\<lparr>text_renderer := tr'\<rparr>) (color properties) = (Inr q, s)"
    by blast
  have f: "scene s = Some sc"
    using get_color_fields(5)[of "self\<lparr>text_renderer := tr'\<rparr>" "color properties"] g assms(3)
    by simp
  have nb: "strip text \<noteq> []"
    using assms(1) by (simp add: strip_empty_iff)
  have "draw_text E self text transform properties cap_h =
               (Inr (), s\<lparr>scene := Some (sc\<lparr>scene_items := scene_items sc @
                  [set_item_data s (new_item
                     (PathShape
                        (map_path (matrix_to_qtransform transform)
                           (map (map_element
                                   (\<lambda>p. (cap_h / cap_height measurements * fst p,
                                         - (cap_h / cap_height measurements) * snd p)))
                              outline)))
                     no_line (SolidPattern q))]\<rparr>)\<rparr>)"
    unfolding draw_text_def
    using nb assms(2,3,7) sc g f
    by (simp add: Let_def add_item_def map_path_combined)
  with sc g map_path_combined show ?thesis
    by blast
qed

theorem draw_text_placement_witness:
  "\<not> isspace (of_char CHR ''A'')
   \<and> current_entity backend1 = Some entity0
   \<and> scene backend1 = Some \<lparr>scene_items = [], backgroundBrush = NoBrush\<rparr>
   \<and> length (color props0) = 7
   \<and> cap_height (fst (TextRenderer_get_font_measurements collab0 (text_renderer backend1)
        (Some (get_qfont collab0 backend1 (font props0))))) = 10
   \<and> fst (get_scale collab0 (text_renderer backend1) 5
        (Some (get_qfont collab0 backend1 (font props0)))) = Inr (1 / 2)
   \<and> fst (draw_text collab0 backend1 (py ''A'') transform0 props0 5) = Inr ()
   \<and> (case scene (snd (draw_text collab0 backend1 (py ''A'') transform0 props0 5)) of
         None \<Rightarrow> []
       | Some sc \<Rightarrow> map item_shape (scene_items sc))
       = [PathShape [MoveToElement 100 0, LineToElement (203 / 2) 5]]"
proof -
  let ?q = "get_qfont collab0 backend1 (font props0)"
  let ?M = "TextRenderer_get_font_measurements collab0 (text_renderer backend1) (Some ?q)"
  let ?P = "get_text_path collab0 (snd ?M)
              (prepare_string_for_rendering collab0 (py ''A'') (dxftype entity0)) (Some ?q)"
  have h0: "\<not> isspace (of_char CHR ''A'')"
    by (simp add: isspace_def)
  then have h1: "\<not> (\<forall>c \<in> set (py ''A''). isspace c)"
    by simp
  have h2: "current_entity backend1 = Some entity0"
    by (simp add: backend1_def)
  have h3: "scene backend1 = Some \<lparr>scene_items = [], backgroundBrush = NoBrush\<rparr>"
    by (simp add: backend1_def backend0_def PyQtBackend_init_def)
  have h4: "length (color props0) = 7"
    by (simp add: props0_def)
  have h5: "?M = (fst ?M, snd ?M)"
    by simp
  have m: "cap_height (fst ?M) = 10"
    by (simp add: TextRenderer_get_font_measurements_def get_text_rect_def get_text_path_def
        collab0_def backend1_def backend0_def PyQtBackend_init_def TextRenderer_init_def
        Let_def)
  then have h6: "cap_height (fst ?M) \<noteq> 0"
    by simp
  have h7: "?P = (fst ?P, snd ?P)"
    by simp
  have o: "fst ?P = [MoveToElement 0 0, LineToElement 3 (-10)]"
    by (simp add: TextRenderer_get_font_measurements_def get_text_rect_def get_text_path_def
        collab0_def backend1_def backend0_def PyQtBackend_init_def TextRenderer_init_def
        Let_def)
  from draw_text_placement[OF h1 h2 h3 disjI1[OF h4] h5 h6 h7, of 5 transform0]
  obtain qt_color s where
    sc: "get_scale collab0 (text_renderer backend1) 5 (Some ?q) = (Inr (5 / cap_height (fst ?M)), snd ?M)"
    and d: "draw_text collab0 backend1 (py ''A'') transform0 props0 5 =
      (Inr (), s\<lparr>scene := Some (\<lparr>scene_items = [], backgroundBrush = NoBrush\<rparr>
         \<lparr>scene_items := scene_items \<lparr>scene_items = [], backgroundBrush = NoBrush\<rparr> @
            [set_item_data s (new_item
               (PathShape
                  (map_path (matrix_to_qtransform transform0)
                     (map (map_element
                             (\<lambda>p. (5 / cap_height (fst ?M) * fst p,
                                   - (5 / cap_height (fst ?M)) * snd p)))
                        (fst ?P))))
               no_line (SolidPattern qt_color))]\<rparr>)\<rparr>)"
    by blast
  have e1: "fst (get_scale collab0 (text_renderer backend1) 5 (Some ?q)) = Inr (1 / 2)"
    unfolding sc m by simp
  have e2: "fst (draw_text collab0 backend1 (py ''A'') transform0 props0 5) = Inr ()"
    unfolding d by simp
  have e3: "(case scene (snd (draw_text collab0 backend1 (py ''A'') transform0 props0 5)) of
         None \<Rightarrow> []
       | Some sc \<Rightarrow> map item_shape (scene_items sc))
       = [PathShape [MoveToElement 100 0, LineToElement (203 / 2) 5]]"
    unfolding d m o
    by (simp add: set_item_data_def new_item_def map_path_def map_point_def
        matrix_to_qtransform_def get_2d_transformation_def transform0_def isAffine_def Let_def)
  show ?thesis
    by (intro conjI h0 h2 h3 h4 m e1 e2 e3)
qed

subsection \<open>C7: blank text\<close>

text \<open>
  C7. For every text that consists of whitespace only, so that nothing is left after
  trimming, drawing the text raises no error and leaves the backend as it was (no item
  in the scene, no call of the shaping, no cache entry), and measuring the width of the
  line returns 0 and leaves the backend as it was.
\<close>

theorem blank_text_skipped:
  assumes "\<forall>c \<in> set text. isspace c"
  shows "strip text = []
       \<and> draw_text E self text transform properties cap_h = (Inr (), self)
       \<and> get_text_line_width E self text cap_h fnt = (Inr 0, self)"
  using assms by (simp add: draw_text_def get_text_line_width_def strip_empty_iff)

theorem blank_text_skipped_witness:
  "isspace 32 \<and> isspace 9 \<and> isspace 160
   \<and> draw_text collab0 backend1 [32, 9, 160] transform0 props0 5 = (Inr (), backend1)
   \<and> get_text_line_width collab0 backend1 [32, 9, 160] 5 None = (Inr 0, backend1)
   \<and> draw_text collab0 backend1 [] transform0 props0 5 = (Inr (), backend1)
   \<and> shaping_calls (text_renderer (snd (get_text_line_width collab0 backend1 [32, 9, 160] 5 None)))
       = 0"
proof -
  have s: "isspace 32" "isspace 9" "isspace 160"
    by (simp_all add: isspace_def)
  then have h1: "\<forall>c \<in> set [32, 9, 160]. isspace c"
    by simp
  have h2: "\<forall>c \<in> set []. isspace c"
    by simp
  have z: "shaping_calls (text_renderer backend1) = 0"
    by (simp add: backend1_def backend0_def PyQtBackend_init_def TextRenderer_init_def)
  show ?thesis
    using s z blank_text_skipped[OF h1, of collab0 backend1 transform0 props0 5 None]
      blank_text_skipped[OF h2, of collab0 backend1 transform0 props0 5 None]
    by simp
qed

subsection \<open>C8: hidden hatches\<close>

text \<open>
  C8. For every call that draws filled paths while \<open>show_hatch\<close> is zero, whatever the
  paths and the holes are, no error is raised and the backend is left as it was: nothing
  is emitted.
\<close>

theorem hidden_hatch_skipped:
  assumes "show_hatch self = 0"
  shows "draw_filled_paths E self paths holes properties = (Inr (), self)"
  using assms by (simp add: draw_filled_paths_def)

theorem hidden_hatch_skipped_witness:
  "show_hatch (backend0\<lparr>show_hatch := 0\<rparr>) = 0
   \<and> draw_filled_paths collab0 (backend0\<lparr>show_hatch := 0\<rparr>)
        [\<lparr>path_start = Vector 0 0 0,
          path_commands = [LineTo (Vector 1 0 0), LineTo (Vector 1 1 0)]\<rparr>]
        [\<lparr>path_start = Vector 0 0 0, path_commands = [OtherCommand 7]\<rparr>]
        (props0\<lparr>filling := True\<rparr>)
       = (Inr (), backend0\<lparr>show_hatch := 0\<rparr>)"
proof -
  have h: "show_hatch (backend0\<lparr>show_hatch := 0\<rparr>) = 0"
    by simp
  show ?thesis
    using h hidden_hatch_skipped[OF h] by simp
qed

subsection \<open>C9: the colour cache\<close>

text \<open>
  C9. In every backend whose colour cache is as \<open>get_color\<close> keeps it, the resolution of
  a colour string of 7 or 9 characters succeeds, a second resolution of the same string
  returns the same colour object and changes nothing, a string of 7 characters is
  resolved to the colour of that string, and a string of 9 characters to the colour of
  the string with the two characters of the alpha field moved to the front, behind the
  \<open>#\<close>.
\<close>

theorem get_color_cached:
  assumes "color_cache_ok self" and "length c = 7 \<or> length c = 9"
  shows "\<exists>q s. get_color self c = (Inr q, s) \<and> get_color s c = (Inr q, s)
           \<and> color_cache s c = Some q
           \<and> color_cache_ok s
           \<and> (length c = 7 \<longrightarrow> color_name q = c)
           \<and> (\<forall>h r1 r2 g1 g2 b1 b2 a1 a2. c = [h, r1, r2, g1, g2, b1, b2, a1, a2] \<longrightarrow>
                 color_name q = [of_char CHR ''#'', a1, a2, r1, r2, g1, g2, b1, b2])"
proof (cases "color_cache self c")
  case None
  then show ?thesis
    using assms by (auto simp: get_color_cases color_cache_ok_def slice_def)
next
  case (Some q)
  with assms(1) have "(length c = 7 \<and> color_name q = c) \<or>
        (length c = 9 \<and> color_name q = py ''#'' @ slice 7 9 c @ slice 1 7 c)"
    unfolding color_cache_ok_def by blast
  with Some assms(1) show ?thesis
    by (auto simp: get_color_cases slice_def)
qed

theorem get_color_cached_witness:
  "color_cache_ok backend0 \<and> length (py ''#11223344'') = 9
   \<and> get_color backend0 (py ''#11223344'')
       = (Inr (QColor 0 (py ''#44112233'')),
          backend0\<lparr>allocated := 1,
                   color_cache := [py ''#11223344'' \<mapsto> QColor 0 (py ''#44112233'')]\<rparr>)
   \<and> get_color (snd (get_color backend0 (py ''#11223344''))) (py ''#11223344'')
       = get_color backend0 (py ''#11223344'')"
proof -
  have h1: "color_cache_ok backend0"
    unfolding backend0_def by (rule color_cache_ok_init)
  have h2: "length (py ''#11223344'') = 9"
    by simp
  have e: "get_color backend0 (py ''#11223344'')
       = (Inr (QColor 0 (py ''#44112233'')),
          backend0\<lparr>allocated := 1,
                   color_cache := [py ''#11223344'' \<mapsto> QColor 0 (py ''#44112233'')]\<rparr>)"
    by (simp add: get_color_cases slice_def backend0_def PyQtBackend_init_def)
  from get_color_cached[OF h1 disjI2[OF h2]]
  obtain q s where "get_color backend0 (py ''#11223344'') = (Inr q, s)"
    "get_color s (py ''#11223344'') = (Inr q, s)"
    by blast
  then have "get_color (snd (get_color backend0 (py ''#11223344''))) (py ''#11223344'')
       = get_color backend0 (py ''#11223344'')"
    by simp
  with h1 h2 e show ?thesis
    by blast
qed

subsection \<open>C10: points\<close>

text \<open>
  C10. For every point drawn on a backend with a scene, in a colour of length 7 or 9,
  exactly one item is added to the scene: a point at the position with the radius
  \<open>point_size * 0.5\<close>, no pen, and a solid brush in the resolved colour, tagged with the
  current entity and its parents; and the call does the same whatever the filling flag,
  the lineweight and the linetype pattern of the property set are.
\<close>

theorem draw_point_emits:
  assumes "scene self = Some sc"
    and "length (color properties) = 7 \<or> length (color properties) = 9"
  shows "\<exists>qt_color s. get_color self (color properties) = (Inr qt_color, s)
           \<and> draw_point self pos properties =
               (Inr (), s\<lparr>scene := Some (sc\<lparr>scene_items := scene_items sc @
                  [\<lparr>item_shape = PointShape (vec_x pos) (vec_y pos) (point_size self * (1 / 2)),
                    item_pen = NoPen,
                    item_brush = SolidPattern qt_color,
                    item_entity = Some (current_entity self),
                    item_parent_stack = Some (map fst (butlast (entity_stack self)))\<rparr>]\<rparr>)\<rparr>)
           \<and> draw_point self pos
                 (properties\<lparr>filling := fl, lineweight := lw, linetype_pattern := lp\<rparr>)
               = draw_point self pos properties"
proof -
  from get_color_ok[OF assms(2)] obtain q s where g: "get_color self (color properties) = (Inr q, s)"
    by blast
  have f: "scene s = Some sc" "point_size s = point_size self"
    "current_entity s = current_entity self" "entity_stack s = entity_stack self"
    using get_color_fields[of self "color properties"] g assms(1) by simp_all
  show ?thesis
    using g f by (simp add: draw_point_def add_item_def Point_init_def set_item_data_def Let_def)
qed

theorem draw_point_emits_witness:
  "scene backend1 = Some \<lparr>scene_items = [], backgroundBrush = NoBrush\<rparr>
   \<and> length (color props0) = 7
   \<and> fst (draw_point backend1 (Vector 3 4 0) props0) = Inr ()
   \<and> scene (snd (draw_point backend1 (Vector 3 4 0) props0)) =
       Some \<lparr>scene_items =
               [\<lparr>item_shape = PointShape 3 4 (1 / 2), item_pen = NoPen,
                 item_brush = SolidPattern (QColor 0 (py ''#000000'')),
                 item_entity = Some (Some entity0), item_parent_stack = Some []\<rparr>],
             backgroundBrush = NoBrush\<rparr>
   \<and> draw_point backend1 (Vector 3 4 0)
        (props0\<lparr>filling := True, lineweight := 2, linetype_pattern := [5, 1, 5]\<rparr>)
       = draw_point backend1 (Vector 3 4 0) props0"
proof -
  have h1: "scene backend1 = Some \<lparr>scene_items = [], backgroundBrush = NoBrush\<rparr>"
    by (simp add: backend1_def backend0_def PyQtBackend_init_def)
  have h2: "length (color props0) = 7"
    by (simp add: props0_def)
  have g: "get_color backend1 (color props0) =
     (Inr (QColor 0 (py ''#000000'')),
      backend1\<lparr>allocated := 1, color_cache := [py ''#000000'' \<mapsto> QColor 0 (py ''#000000'')]\<rparr>)"
    by (simp add: get_color_cases props0_def backend1_def backend0_def PyQtBackend_init_def)
  have p: "point_size backend1 = 1" "current_entity backend1 = Some entity0"
    "entity_stack backend1 = [(entity0, props0)]"
    by (simp_all add: backend1_def backend0_def PyQtBackend_init_def params0_def)
  from draw_point_emits[OF h1 disjI1[OF h2], where pos = "Vector 3 4 0" and fl = True
      and lw = 2 and lp = "[5, 1, 5]"]
  show ?thesis
    using h1 h2 by (auto simp: g p)
qed

end
